theory Spec2Isabelle
  imports Main "HOL-Library.Word"
begin

section \<open>Control server of the horizon fabric: data model\<close>

text \<open>
  The development embeds the control-plane RPC handlers of package \<open>control\<close>
  (type \<open>Server\<close> and its methods). Byte strings are lists of 8-bit words; a
  \<open>pb.ULID\<close> is carried as its bytes, so \<open>Bytes\<close>, \<open>ULIDFromBytes\<close> are the
  identity and \<open>Equal\<close> is equality of the bytes. Messages are taken with all their
  sub-messages present (no nil \<open>Account\<close>, \<open>Hub\<close> or \<open>Id\<close> pointer).
  The columns \<open>CreatedAt\<close>/\<open>UpdatedAt\<close>, which the object-relational mapper fills in
  by itself and no handler reads, are left out of the rows.
\<close>

type_synonym bytes = "8 word list"

type_synonym ULID = bytes

datatype TokenRole = HUB | MANAGE | ROLE nat

datatype Capability = ACCESS | CONNECT | CAP nat

datatype err =
    ErrBadAuthentication
  | ErrInvalidRequest
  | ErrRecordNotFound
  | ErrNoRows
  | Canceled
  | Errorf string
  | Wrapf err string "TokenRole list"
  | MultiError "err list"
  | StoreError string
  | External string

record pb_Account =
  Namespace :: string
  AccountId :: ULID

type_synonym LabelSet = "(string \<times> string) list"

datatype NetworkLocation = NetworkLocation string

record TokenCapability =
  tcap_Capability :: Capability
  tcap_Value :: string

text \<open>
  Modelled from the spec: the body of a token is declared in package \<open>pb\<close>, which is
  not among the sources; by the specification it carries a role, an account id, a
  namespace and a set of capabilities. Of the values of the enumerations only those the
  handlers name are constructors of their own (\<open>HUB\<close>, \<open>MANAGE\<close>; \<open>ACCESS\<close>,
  \<open>CONNECT\<close>); \<open>ROLE n\<close> and \<open>CAP n\<close> stand for the others.
\<close>

record TokenBody =
  Role :: TokenRole
  body_Id :: ULID
  body_Namespace :: string
  body_Capabilities :: "TokenCapability list"

record ValidToken =
  Body :: TokenBody

record TokenCreator =
  tc_Role :: TokenRole
  tc_AccountId :: ULID
  tc_AccuntNamespace :: string
  tc_Capabilities :: "(Capability \<times> string) list"
  tc_RawCapabilities :: "TokenCapability list"
  tc_ValidDuration :: int

subsection \<open>Rows of the relational store\<close>

record Account =
  acct_ID :: bytes
  acct_Namespace :: string

record Service =
  svc_ID :: int
  svc_ServiceId :: bytes
  svc_HubId :: bytes
  svc_AccountId :: bytes
  svc_Type :: string
  svc_Description :: string
  svc_Labels :: "string list"

record Hub =
  hub_StableID :: bytes
  hub_InstanceID :: bytes
  hub_ConnectionInfo :: bytes
  hub_LastCheckin :: nat

record ManagementClient =
  mc_ID :: bytes
  mc_Namespace :: string

record LabelLink =
  ll_ID :: int
  ll_AccountID :: bytes
  ll_Labels :: string
  ll_Target :: string

record tables =
  accounts :: "Account list"
  services :: "Service list"
  hubs :: "Hub list"
  label_links :: "LabelLink list"
  management_clients :: "ManagementClient list"
  services_seq :: int
  label_links_seq :: int

subsection \<open>Messages\<close>

record ServiceRequest =
  sr_Account :: pb_Account
  sr_Hub :: ULID
  sr_Id :: ULID
  sr_Type :: string
  sr_Labels :: LabelSet

record ServiceRoute =
  rt_Hub :: ULID
  rt_Id :: ULID
  rt_Type :: string
  rt_Labels :: LabelSet

record AccountServices =
  as_Account :: pb_Account
  as_Services :: "ServiceRoute list"

record pb_LabelLink =
  pll_Account :: pb_Account
  pll_Labels :: LabelSet
  pll_Target :: LabelSet

record CentralActivity =
  ca_AccountServices :: "AccountServices list"
  ca_NewLabelLinks :: "pb_LabelLink list option"

record ConfigRequest =
  cr_StableId :: ULID
  cr_InstanceId :: ULID
  cr_Locations :: "NetworkLocation list"

record ConfigResponse =
  TlsKey :: bytes
  TlsCert :: bytes
  TokenPub :: bytes
  S3AccessKey :: string
  S3SecretKey :: string
  S3Bucket :: string

record HubDisconnectRequest =
  hd_StableId :: ULID
  hd_InstanceId :: ULID

record ControlRegister =
  reg_Namespace :: string

record AddLabelLinkRequest =
  al_Account :: pb_Account
  al_Labels :: LabelSet
  al_Target :: LabelSet

record RemoveLabelLinkRequest =
  rl_Account :: pb_Account
  rl_Labels :: LabelSet

record CreateTokenRequest =
  ct_Account :: pb_Account
  ct_Capabilities :: "TokenCapability list"
  ct_ValidDuration :: "int option"

record ServiceTokenRequest =
  st_Namespace :: string

record HubInfo =
  hi_Id :: ULID
  hi_Locations :: "NetworkLocation list"

datatype Noop = Noop

datatype ServiceResponse = ServiceResponse

subsection \<open>Server state, request context and collaborators\<close>

text \<open>
  A connected hub owns the channel \<open>xmit\<close>; the model records in \<open>xmit\<close> the deltas
  that have been handed over to the session's sender, oldest first.
\<close>

record connectedHub =
  xmit :: "CentralActivity list"
  messages :: "64 word"
  bytes_ctr :: "64 word"

text \<open>
  The registry \<open>connectedHubs\<close> is a Go map; it is kept as an association list with
  at most one entry per key.
\<close>

text \<open>
  The store can fail: \<open>faults\<close> is the schedule of outcomes the store gives to the
  statements the server issues, one entry per checked statement in the order of issue
  (\<open>None\<close>: the statement is executed, \<open>Some e\<close>: it fails with \<open>e\<close> and changes
  nothing); past the end of the schedule every statement is executed.
\<close>

record Server =
  registerToken :: string
  pubKey :: bytes
  hubCert :: bytes
  hubKey :: bytes
  cfg_HubAccessKey :: string
  cfg_HubSecretKey :: string
  cfg_Bucket :: string
  tbl :: tables
  faults :: "err option list"
  connectedHubs :: "(string \<times> connectedHub) list"

text \<open>
  The incoming context: the request metadata (absent, or a multi-map from keys to lists
  of values) and whether the context has been cancelled.
\<close>

record Context =
  md :: "(string \<rightharpoonup> string list) option"
  ctx_done :: bool

text \<open>
  Functions and constants of the repository that live outside the file of the handlers
  (packages \<open>token\<close>, \<open>pb\<close>, the JSON codec, the routing and label-link
  materialisers of the server) are parameters of the model, gathered in one record.
  \<open>TokenRole_zero\<close> is the value of \<open>pb.TokenRole\<close> that a \<open>TokenCreator\<close> holds
  when its \<open>Role\<close> is never assigned. The two materialisers read the tables and write
  to the object store only.
\<close>

record ext =
  CheckTokenED25519 :: "string \<Rightarrow> bytes \<Rightarrow> err + ValidToken"
  EncodeED25519WithVault :: "TokenCreator \<Rightarrow> err + string"
  TokenRole_zero :: TokenRole
  InternalAccount :: ULID
  Key :: "pb_Account \<Rightarrow> bytes"
  AccountFromKey :: "bytes \<Rightarrow> err + pb_Account"
  AsStringArray :: "LabelSet \<Rightarrow> string list"
  FlattenLabels :: "LabelSet \<Rightarrow> string"
  SpecString :: "ULID \<Rightarrow> string"
  json_Marshal :: "NetworkLocation list \<Rightarrow> err + bytes"
  json_Unmarshal :: "bytes \<Rightarrow> err + NetworkLocation list"
  updateAccountRouting :: "tables \<Rightarrow> pb_Account \<Rightarrow> err option"
  updateLabelLinks :: "tables \<Rightarrow> err option"

type_synonym 'a reply = "'a option \<times> err option"

subsection \<open>Errors\<close>

fun Cause :: "err \<Rightarrow> err" where
  "Cause (Wrapf e m args) = Cause e"
| "Cause e = e"

text \<open>\<open>multierror.Append\<close> for one appended error: a nil accumulator starts a new
  composite, a composite argument is flattened, a nil argument adds nothing.\<close>

fun multierror_flatten :: "err option \<Rightarrow> err list" where
  "multierror_flatten None = []"
| "multierror_flatten (Some (MultiError es)) = es"
| "multierror_flatten (Some e) = [e]"

definition multierror_Append :: "err option \<Rightarrow> err option \<Rightarrow> err" where
  "multierror_Append acc e = MultiError (multierror_flatten acc @ multierror_flatten e)"

subsection \<open>Statements on the store\<close>

definition db_Check :: "Server \<Rightarrow> err option \<times> Server" where
  "db_Check s = (case faults s of [] \<Rightarrow> (None, s) | f # fs \<Rightarrow> (f, s\<lparr>faults := fs\<rparr>))"

definition delete_services_by_service_id :: "bytes \<Rightarrow> Server \<Rightarrow> err option \<times> Server" where
  "delete_services_by_service_id sid s =
     (case db_Check s of
        (Some e, s1) \<Rightarrow> (Some e, s1)
      | (None, s1) \<Rightarrow>
          (None, s1\<lparr>tbl := (tbl s1)\<lparr>services := filter (\<lambda>r. svc_ServiceId r \<noteq> sid) (services (tbl s1))\<rparr>\<rparr>))"

subsection \<open>Authentication of hubs\<close>

definition md_get :: "(string \<rightharpoonup> string list) \<Rightarrow> string \<Rightarrow> string list" where
  "md_get m k = (case m k of None \<Rightarrow> [] | Some vs \<Rightarrow> vs)"

definition checkFromHub :: "ext \<Rightarrow> Server \<Rightarrow> Context \<Rightarrow> err + ValidToken" where
  "checkFromHub x s ctx =
     (case md ctx of
        None \<Rightarrow> Inl ErrBadAuthentication
      | Some m \<Rightarrow>
          (let auth = md_get m ''authorization'' in
           if length auth < 1 then Inl ErrBadAuthentication
           else (case CheckTokenED25519 x (hd auth) (pubKey s) of
                   Inl e \<Rightarrow> Inl e
                 | Inr token \<Rightarrow>
                     if Role (Body token) \<noteq> HUB
                     then Inl (Wrapf ErrBadAuthentication ''role was: %s'' [Role (Body token)])
                     else Inr token)))"

subsection \<open>RemoveService\<close>

definition RemoveService ::
  "ext \<Rightarrow> Context \<Rightarrow> ServiceRequest \<Rightarrow> Server \<Rightarrow> ServiceResponse reply \<times> Server" where
  "RemoveService x ctx service s =
     (case checkFromHub x s ctx of
        Inl e \<Rightarrow> ((None, Some e), s)
      | Inr _ \<Rightarrow>
          (case delete_services_by_service_id (sr_Id service) s of
             (Some e, s1) \<Rightarrow> ((None, Some e), s1)
           | (None, s1) \<Rightarrow>
               (case updateAccountRouting x (tbl s1) (sr_Account service) of
                  Some e \<Rightarrow> ((None, Some e), s1)
                | None \<Rightarrow> ((Some ServiceResponse, None), s1))))"

subsection \<open>removeHubServices\<close>

definition find_services_by_hub :: "bytes \<Rightarrow> Server \<Rightarrow> (err + Service list) \<times> Server" where
  "find_services_by_hub hid s =
     (case db_Check s of
        (Some e, s1) \<Rightarrow> (Inl e, s1)
      | (None, s1) \<Rightarrow> (Inr (filter (\<lambda>r. svc_HubId r = hid) (services (tbl s1))), s1))"

definition delete_services_by_hub :: "bytes \<Rightarrow> Server \<Rightarrow> err option \<times> Server" where
  "delete_services_by_hub hid s =
     (case db_Check s of
        (Some e, s1) \<Rightarrow> (Some e, s1)
      | (None, s1) \<Rightarrow>
          (None, s1\<lparr>tbl := (tbl s1)\<lparr>services := filter (\<lambda>r. svc_HubId r \<noteq> hid) (services (tbl s1))\<rparr>\<rparr>))"

text \<open>The loop over the rows found before the deletion: it stops at the first error.\<close>

fun routing_loop :: "ext \<Rightarrow> tables \<Rightarrow> Service list \<Rightarrow> err option" where
  "routing_loop x t [] = None"
| "routing_loop x t (service # sos) =
     (case AccountFromKey x (svc_AccountId service) of
        Inl e \<Rightarrow> Some e
      | Inr acc \<Rightarrow>
          (case updateAccountRouting x t acc of
             Some e \<Rightarrow> Some e
           | None \<Rightarrow> routing_loop x t sos))"

definition removeHubServices :: "ext \<Rightarrow> ULID \<Rightarrow> Server \<Rightarrow> err option \<times> Server" where
  "removeHubServices x hubId s =
     (case find_services_by_hub hubId s of
        (Inl e, s1) \<Rightarrow> (Some e, s1)
      | (Inr sos, s1) \<Rightarrow>
          (case delete_services_by_hub hubId s1 of
             (Some e, s2) \<Rightarrow> (Some e, s2)
           | (None, s2) \<Rightarrow> (routing_loop x (tbl s2) sos, s2)))"

subsection \<open>FetchConfig\<close>

definition first_hub_for_update :: "bytes \<Rightarrow> Server \<Rightarrow> (err + Hub) \<times> Server" where
  "first_hub_for_update sid s =
     (case db_Check s of
        (Some e, s1) \<Rightarrow> (Inl e, s1)
      | (None, s1) \<Rightarrow>
          (case find (\<lambda>h. hub_StableID h = sid) (hubs (tbl s1)) of
             None \<Rightarrow> (Inl ErrRecordNotFound, s1)
           | Some h \<Rightarrow> (Inr h, s1)))"

text \<open>\<open>stable_id\<close> is the primary key of \<open>hubs\<close>: an insert of a key already present
  is refused by the store.\<close>

definition create_hub :: "Hub \<Rightarrow> Server \<Rightarrow> err option \<times> Server" where
  "create_hub hr s =
     (case db_Check s of
        (Some e, s1) \<Rightarrow> (Some e, s1)
      | (None, s1) \<Rightarrow>
          if list_ex (\<lambda>h. hub_StableID h = hub_StableID hr) (hubs (tbl s1))
          then (Some (StoreError ''duplicate key''), s1)
          else (None, s1\<lparr>tbl := (tbl s1)\<lparr>hubs := hubs (tbl s1) @ [hr]\<rparr>\<rparr>))"

text \<open>\<open>tx.Model(&hr).Updates(...)\<close> addresses the row by the primary key held in
  \<open>hr\<close>; with a blank key the mapper issues the update without a condition.\<close>

definition update_hub :: "Hub \<Rightarrow> bytes \<Rightarrow> bytes \<Rightarrow> nat \<Rightarrow> Server \<Rightarrow> err option \<times> Server" where
  "update_hub hr data inst now s =
     (case db_Check s of
        (Some e, s1) \<Rightarrow> (Some e, s1)
      | (None, s1) \<Rightarrow>
          (None, s1\<lparr>tbl := (tbl s1)\<lparr>hubs :=
             map (\<lambda>h. if hub_StableID hr = [] \<or> hub_StableID h = hub_StableID hr
                       then h\<lparr>hub_ConnectionInfo := data, hub_InstanceID := inst, hub_LastCheckin := now\<rparr>
                       else h)
                 (hubs (tbl s1))\<rparr>\<rparr>))"

definition Hub_zero :: Hub where
  "Hub_zero = \<lparr>hub_StableID = [], hub_InstanceID = [], hub_ConnectionInfo = [], hub_LastCheckin = 0\<rparr>"

definition Rollback :: "tables \<Rightarrow> Server \<Rightarrow> Server" where
  "Rollback snapshot s = s\<lparr>tbl := snapshot\<rparr>"

text \<open>A commit that fails leaves the work of the transaction invisible.\<close>

definition Commit :: "tables \<Rightarrow> Server \<Rightarrow> err option \<times> Server" where
  "Commit snapshot s =
     (case db_Check s of
        (Some e, s1) \<Rightarrow> (Some e, Rollback snapshot s1)
      | (None, s1) \<Rightarrow> (None, s1))"

definition config_response :: "Server \<Rightarrow> ConfigResponse" where
  "config_response s =
     \<lparr>TlsKey = hubKey s, TlsCert = hubCert s, TokenPub = pubKey s,
      S3AccessKey = cfg_HubAccessKey s, S3SecretKey = cfg_HubSecretKey s,
      S3Bucket = cfg_Bucket s\<rparr>"

definition FetchConfig_commit :: "tables \<Rightarrow> Server \<Rightarrow> ConfigResponse reply \<times> Server" where
  "FetchConfig_commit snapshot s =
     (case Commit snapshot s of
        (Some e, s1) \<Rightarrow> ((None, Some e), s1)
      | (None, s1) \<Rightarrow> ((Some (config_response s1), None), s1))"

text \<open>The branch taken when the lookup reports \<open>ErrRecordNotFound\<close>.\<close>

definition FetchConfig_create ::
  "ConfigRequest \<Rightarrow> bytes \<Rightarrow> nat \<Rightarrow> tables \<Rightarrow> Server \<Rightarrow> ConfigResponse reply \<times> Server" where
  "FetchConfig_create req data now snapshot s =
     (let hr = Hub_zero\<lparr>hub_StableID := cr_StableId req, hub_InstanceID := cr_InstanceId req,
                        hub_ConnectionInfo := data, hub_LastCheckin := now\<rparr>
      in case create_hub hr s of
           (Some e, s1) \<Rightarrow> ((None, Some e), Rollback snapshot s1)
         | (None, s1) \<Rightarrow> FetchConfig_commit snapshot s1)"

text \<open>The \<open>else\<close> branch: taken for a row that was found and also for a lookup that
  failed with another error, in which case \<open>hr\<close> still holds its zero value.\<close>

definition FetchConfig_update ::
  "ext \<Rightarrow> ConfigRequest \<Rightarrow> Hub \<Rightarrow> bytes \<Rightarrow> nat \<Rightarrow> tables \<Rightarrow> Server \<Rightarrow> ConfigResponse reply \<times> Server" where
  "FetchConfig_update x req hr data now snapshot s =
     (let prev = hub_InstanceID hr in
      case (if cr_InstanceId req \<noteq> prev then removeHubServices x prev s else (None, s)) of
        (Some e, s1) \<Rightarrow> ((None, Some e), Rollback snapshot s1)
      | (None, s1) \<Rightarrow>
          (case update_hub hr data (cr_InstanceId req) now s1 of
             (Some e, s2) \<Rightarrow> ((None, Some e), Rollback snapshot s2)
           | (None, s2) \<Rightarrow> FetchConfig_commit snapshot s2))"

text \<open>\<open>now\<close> is the value \<open>time.Now()\<close> gives during the call.\<close>

definition FetchConfig ::
  "ext \<Rightarrow> Context \<Rightarrow> ConfigRequest \<Rightarrow> nat \<Rightarrow> Server \<Rightarrow> ConfigResponse reply \<times> Server" where
  "FetchConfig x ctx req now s =
     (case checkFromHub x s ctx of
        Inl e \<Rightarrow> ((None, Some e), s)
      | Inr _ \<Rightarrow>
          (case json_Marshal x (cr_Locations req) of
             Inl e \<Rightarrow> ((None, Some e), s)
           | Inr data \<Rightarrow>
               (let snapshot = tbl s in
                case first_hub_for_update (cr_StableId req) s of
                  (r, s1) \<Rightarrow>
                    if r = Inl ErrRecordNotFound
                    then FetchConfig_create req data now snapshot s1
                    else FetchConfig_update x req (case r of Inr h \<Rightarrow> h | Inl _ \<Rightarrow> Hub_zero)
                           data now snapshot s1)))"

subsection \<open>HubDisconnect\<close>

definition delete_hub_by_stable_id :: "bytes \<Rightarrow> Server \<Rightarrow> err option \<times> Server" where
  "delete_hub_by_stable_id sid s =
     (case db_Check s of
        (Some e, s1) \<Rightarrow> (Some e, s1)
      | (None, s1) \<Rightarrow>
          (None, s1\<lparr>tbl := (tbl s1)\<lparr>hubs := filter (\<lambda>h. hub_StableID h \<noteq> sid) (hubs (tbl s1))\<rparr>\<rparr>))"

text \<open>
  \<open>err\<close> is the variable assigned by the authentication check; past the early return it
  is nil. The first accumulation is guarded by \<open>err\<close>, the second by \<open>serr\<close>, as in the
  handler.
\<close>

definition HubDisconnect ::
  "ext \<Rightarrow> Context \<Rightarrow> HubDisconnectRequest \<Rightarrow> Server \<Rightarrow> Noop reply \<times> Server" where
  "HubDisconnect x ctx req s =
     (case checkFromHub x s ctx of
        Inl e \<Rightarrow> ((None, Some e), s)
      | Inr _ \<Rightarrow>
          (let err = (None :: err option) in
           case removeHubServices x (hd_InstanceId req) s of
             (serr, s1) \<Rightarrow>
               (let err1 = (if err \<noteq> None then Some (multierror_Append err serr) else err) in
                case delete_hub_by_stable_id (hd_StableId req) s1 of
                  (serr2, s2) \<Rightarrow>
                    (let err2 = (if serr2 \<noteq> None then Some (multierror_Append err1 serr2) else err1)
                     in ((Some Noop, err2), s2)))))"

subsection \<open>Broadcast to the connected hubs\<close>

text \<open>
  The fan-out sends the delta on the channel of every registered hub, racing each send
  against the cancellation of the caller's context. The model takes a receptive sender
  at every session; for a cancelled context it takes the cancellation at the first
  session (the handler may also deliver to some sessions first: the choice between two
  ready cases of a \<open>select\<close> is not determined).
\<close>

definition broadcastActivity :: "Context \<Rightarrow> CentralActivity \<Rightarrow> Server \<Rightarrow> err option \<times> Server" where
  "broadcastActivity ctx act s =
     (if ctx_done ctx \<and> connectedHubs s \<noteq> [] then (Some Canceled, s)
      else (None, s\<lparr>connectedHubs :=
              map (\<lambda>(k, hub). (k, hub\<lparr>xmit := xmit hub @ [act]\<rparr>)) (connectedHubs s)\<rparr>))"

subsection \<open>AddService\<close>

text \<open>The primary key of \<open>services\<close> is drawn from a sequence of the store.\<close>

definition create_service :: "Service \<Rightarrow> Server \<Rightarrow> err option \<times> Server" where
  "create_service so s =
     (case db_Check s of
        (Some e, s1) \<Rightarrow> (Some e, s1)
      | (None, s1) \<Rightarrow>
          (let n = services_seq (tbl s1) + 1 in
           (None, s1\<lparr>tbl := (tbl s1)\<lparr>services := services (tbl s1) @ [so\<lparr>svc_ID := n\<rparr>],
                                      services_seq := n\<rparr>\<rparr>)))"

definition Service_zero :: Service where
  "Service_zero =
     \<lparr>svc_ID = 0, svc_ServiceId = [], svc_HubId = [], svc_AccountId = [], svc_Type = [],
      svc_Description = [], svc_Labels = []\<rparr>"

definition service_activity :: "ServiceRequest \<Rightarrow> CentralActivity" where
  "service_activity service =
     \<lparr>ca_AccountServices =
        [\<lparr>as_Account = sr_Account service,
          as_Services = [\<lparr>rt_Hub = sr_Hub service, rt_Id = sr_Id service,
                          rt_Type = sr_Type service, rt_Labels = sr_Labels service\<rparr>]\<rparr>],
      ca_NewLabelLinks = None\<rparr>"

definition AddService ::
  "ext \<Rightarrow> Context \<Rightarrow> ServiceRequest \<Rightarrow> Server \<Rightarrow> ServiceResponse reply \<times> Server" where
  "AddService x ctx service s =
     (case checkFromHub x s ctx of
        Inl e \<Rightarrow> ((None, Some e), s)
      | Inr _ \<Rightarrow>
          (let so = Service_zero\<lparr>svc_AccountId := Key x (sr_Account service),
                                svc_HubId := sr_Hub service,
                                svc_ServiceId := sr_Id service,
                                svc_Type := sr_Type service,
                                svc_Labels := AsStringArray x (sr_Labels service)\<rparr>
           in case create_service so s of
                (Some e, s1) \<Rightarrow> ((None, Some e), s1)
              | (None, s1) \<Rightarrow>
                  (let s2 = snd (broadcastActivity ctx (service_activity service) s1) in
                   case updateAccountRouting x (tbl s2) (sr_Account service) of
                     Some e \<Rightarrow> ((None, Some e), s2)
                   | None \<Rightarrow> ((Some ServiceResponse, None), s2))))"

subsection \<open>SyncHub, AllHubs\<close>

definition SyncHub :: "Context \<Rightarrow> unit \<Rightarrow> Server \<Rightarrow> unit reply \<times> Server" where
  "SyncHub ctx sync s = ((None, None), s)"

definition find_hubs :: "Server \<Rightarrow> (err + Hub list) \<times> Server" where
  "find_hubs s =
     (case db_Check s of
        (Some e, s1) \<Rightarrow> (Inl e, s1)
      | (None, s1) \<Rightarrow> (Inr (hubs (tbl s1)), s1))"

fun hub_infos :: "ext \<Rightarrow> Hub list \<Rightarrow> err + HubInfo list" where
  "hub_infos x [] = Inr []"
| "hub_infos x (h # hs) =
     (case json_Unmarshal x (hub_ConnectionInfo h) of
        Inl e \<Rightarrow> Inl e
      | Inr locs \<Rightarrow>
          (case hub_infos x hs of
             Inl e \<Rightarrow> Inl e
           | Inr out \<Rightarrow> Inr (\<lparr>hi_Id = hub_InstanceID h, hi_Locations = locs\<rparr> # out)))"

definition AllHubs :: "ext \<Rightarrow> Context \<Rightarrow> Server \<Rightarrow> HubInfo list reply \<times> Server" where
  "AllHubs x ctx s =
     (case find_hubs s of
        (Inl e, s1) \<Rightarrow> ((None, Some e), s1)
      | (Inr hs, s1) \<Rightarrow>
          (case hub_infos x hs of
             Inl e \<Rightarrow> ((None, Some e), s1)
           | Inr out \<Rightarrow> ((Some out, None), s1)))"

subsection \<open>Register, IssueHubToken\<close>

text \<open>
  The pattern match of the store's \<open>LIKE\<close>: \<open>%\<close> stands for any sequence of
  characters, \<open>_\<close> for any single character, and a backslash takes the next character
  of the pattern literally. A pattern that ends in a lone backslash matches nothing here
  (the store rejects it; no pattern built by the server ends so, each ends in \<open>%\<close>).
\<close>

fun sql_like :: "string \<Rightarrow> string \<Rightarrow> bool" where
  "sql_like [] t = (t = [])"
| "sql_like (p # ps) t =
     (if p = CHR ''%'' then
        (sql_like ps t \<or> (case t of [] \<Rightarrow> False | c # t' \<Rightarrow> sql_like (p # ps) t'))
      else if p = CHR ''_'' then
        (case t of [] \<Rightarrow> False | c # t' \<Rightarrow> sql_like ps t')
      else if p = CHR 0x5C then
        (case ps of
           [] \<Rightarrow> False
         | q # qs \<Rightarrow> (case t of [] \<Rightarrow> False | c # t' \<Rightarrow> c = q \<and> sql_like qs t'))
      else (case t of [] \<Rightarrow> False | c # t' \<Rightarrow> c = p \<and> sql_like ps t'))"

definition first_management_client_like ::
  "string \<Rightarrow> Server \<Rightarrow> (err + ManagementClient) \<times> Server" where
  "first_management_client_like pat s =
     (case db_Check s of
        (Some e, s1) \<Rightarrow> (Inl e, s1)
      | (None, s1) \<Rightarrow>
          (case find (\<lambda>r. sql_like pat (mc_Namespace r)) (management_clients (tbl s1)) of
             None \<Rightarrow> (Inl ErrRecordNotFound, s1)
           | Some r \<Rightarrow> (Inr r, s1)))"

definition create_management_client :: "ManagementClient \<Rightarrow> Server \<Rightarrow> err option \<times> Server" where
  "create_management_client r s =
     (case db_Check s of
        (Some e, s1) \<Rightarrow> (Some e, s1)
      | (None, s1) \<Rightarrow>
          if list_ex (\<lambda>c. mc_ID c = mc_ID r) (management_clients (tbl s1))
          then (Some (StoreError ''duplicate key''), s1)
          else (None, s1\<lparr>tbl := (tbl s1)\<lparr>management_clients := management_clients (tbl s1) @ [r]\<rparr>\<rparr>))"

definition TokenCreator_zero :: "ext \<Rightarrow> TokenCreator" where
  "TokenCreator_zero x =
     \<lparr>tc_Role = TokenRole_zero x, tc_AccountId = [], tc_AccuntNamespace = [],
      tc_Capabilities = [], tc_RawCapabilities = [], tc_ValidDuration = 0\<rparr>"

text \<open>The part of \<open>Register\<close> that follows the check of the shared token; \<open>newULID\<close>
  is the identifier \<open>pb.NewULID()\<close> gives during the call.\<close>

definition Register_body ::
  "ext \<Rightarrow> ControlRegister \<Rightarrow> bytes \<Rightarrow> Server \<Rightarrow> string reply \<times> Server" where
  "Register_body x reg newULID s =
     (case first_management_client_like (reg_Namespace reg @ ''%'') s of
        (Inr found, s1) \<Rightarrow> ((None, Some (Errorf ''namespace already in use'')), s1)
      | (Inl e, s1) \<Rightarrow>
          if e \<noteq> ErrRecordNotFound then ((None, Some e), s1)
          else
            (let rec = \<lparr>mc_ID = newULID, mc_Namespace = reg_Namespace reg\<rparr> in
             case create_management_client rec s1 of
               (Some e2, s2) \<Rightarrow> ((None, Some e2), s2)
             | (None, s2) \<Rightarrow>
                 (let tc = (TokenCreator_zero x)\<lparr>tc_Role := MANAGE,
                             tc_Capabilities := [(ACCESS, mc_Namespace rec)]\<rparr>
                  in case EncodeED25519WithVault x tc of
                       Inl e3 \<Rightarrow> ((None, Some e3), s2)
                     | Inr token \<Rightarrow> ((Some token, None), s2))))"

definition Register ::
  "ext \<Rightarrow> Context \<Rightarrow> ControlRegister \<Rightarrow> bytes \<Rightarrow> Server \<Rightarrow> string reply \<times> Server" where
  "Register x ctx reg newULID s =
     (case md ctx of
        None \<Rightarrow> ((None, Some ErrBadAuthentication), s)
      | Some m \<Rightarrow>
          (let auth = md_get m ''authorization'' in
           if length auth < 1 then ((None, Some ErrBadAuthentication), s)
           else if hd auth \<noteq> registerToken s then ((None, Some ErrBadAuthentication), s)
           else Register_body x reg newULID s))"

definition IssueHubToken :: "ext \<Rightarrow> Context \<Rightarrow> Server \<Rightarrow> string reply \<times> Server" where
  "IssueHubToken x ctx s =
     (case md ctx of
        None \<Rightarrow> ((None, Some ErrBadAuthentication), s)
      | Some m \<Rightarrow>
          (let auth = md_get m ''authorization'' in
           if length auth < 1 then ((None, Some ErrBadAuthentication), s)
           else if hd auth \<noteq> registerToken s then ((None, Some ErrBadAuthentication), s)
           else
             (let tc = (TokenCreator_zero x)\<lparr>tc_Role := HUB\<rparr> in
              case EncodeED25519WithVault x tc of
                Inl e \<Rightarrow> ((None, Some e), s)
              | Inr token \<Rightarrow> ((Some token, None), s))))"

subsection \<open>Authentication of management clients\<close>

definition checkMgmtAllowed :: "ext \<Rightarrow> Server \<Rightarrow> Context \<Rightarrow> err + ValidToken" where
  "checkMgmtAllowed x s ctx =
     (case md ctx of
        None \<Rightarrow> Inl ErrBadAuthentication
      | Some m \<Rightarrow>
          (let auth = md_get m ''authorization'' in
           if length auth < 1 then Inl ErrBadAuthentication
           else (case CheckTokenED25519 x (hd auth) (pubKey s) of
                   Inl e \<Rightarrow> Inl e
                 | Inr token \<Rightarrow>
                     if Role (Body token) \<noteq> MANAGE then Inl ErrBadAuthentication
                     else Inr token)))"

text \<open>\<open>strings.HasPrefix s prefix\<close>.\<close>

fun HasPrefix :: "string \<Rightarrow> string \<Rightarrow> bool" where
  "HasPrefix s [] = True"
| "HasPrefix [] (p # ps) = False"
| "HasPrefix (c # cs) (p # ps) = (c = p \<and> HasPrefix cs ps)"

text \<open>
  Modelled from the spec: the methods \<open>AllowAccount\<close> and \<open>Account\<close> of a valid token
  belong to package \<open>token\<close>, which is not among the sources. By the specification
  \<open>allow_account(ns)\<close> is true iff the token's namespace is a prefix of \<open>ns\<close> (or
  equal), and the body of a token carries its account id and its namespace.
\<close>

definition AllowAccount :: "ValidToken \<Rightarrow> string \<Rightarrow> bool" where
  "AllowAccount t ns = HasPrefix ns (body_Namespace (Body t))"

text \<open>
  Modelled from the spec: \<open>Account\<close> gives the account of the token's body, its
  namespace and its id.
\<close>

definition token_Account :: "ValidToken \<Rightarrow> pb_Account" where
  "token_Account t = \<lparr>Namespace = body_Namespace (Body t), AccountId = body_Id (Body t)\<rparr>"

subsection \<open>AddLabelLink, RemoveLabelLink\<close>

text \<open>The insert \<open>ON CONFLICT (id) DO UPDATE SET namespace = EXCLUDED.namespace\<close>.\<close>

definition upsert_rows :: "Account \<Rightarrow> Account list \<Rightarrow> Account list" where
  "upsert_rows ao rows =
     (if list_ex (\<lambda>a. acct_ID a = acct_ID ao) rows
      then map (\<lambda>a. if acct_ID a = acct_ID ao then a\<lparr>acct_Namespace := acct_Namespace ao\<rparr> else a)
             rows
      else rows @ [ao])"

definition upsert_account :: "Account \<Rightarrow> Server \<Rightarrow> err option \<times> Server" where
  "upsert_account ao s =
     (case db_Check s of
        (Some e, s1) \<Rightarrow> (Some e, s1)
      | (None, s1) \<Rightarrow>
          (None, s1\<lparr>tbl := (tbl s1)\<lparr>accounts := upsert_rows ao (accounts (tbl s1))\<rparr>\<rparr>))"

text \<open>
  Modelled from the spec: the schema of \<open>label_links\<close> is not among the sources; by the
  specification \<open>(account_id, labels)\<close> is a uniqueness key of the table, so the store
  refuses the insert of a pair already present. The primary key is drawn from a
  sequence.
\<close>

definition create_label_link :: "LabelLink \<Rightarrow> Server \<Rightarrow> err option \<times> Server" where
  "create_label_link llr s =
     (case db_Check s of
        (Some e, s1) \<Rightarrow> (Some e, s1)
      | (None, s1) \<Rightarrow>
          if list_ex (\<lambda>l. ll_AccountID l = ll_AccountID llr \<and> ll_Labels l = ll_Labels llr)
               (label_links (tbl s1))
          then (Some (StoreError ''duplicate key''), s1)
          else
            (let n = label_links_seq (tbl s1) + 1 in
             (None, s1\<lparr>tbl := (tbl s1)\<lparr>label_links := label_links (tbl s1) @ [llr\<lparr>ll_ID := n\<rparr>],
                                        label_links_seq := n\<rparr>\<rparr>)))"

definition delete_label_links :: "bytes \<Rightarrow> string \<Rightarrow> Server \<Rightarrow> err option \<times> Server" where
  "delete_label_links aid labels s =
     (case db_Check s of
        (Some e, s1) \<Rightarrow> (Some e, s1)
      | (None, s1) \<Rightarrow>
          (None, s1\<lparr>tbl := (tbl s1)\<lparr>label_links :=
             filter (\<lambda>l. \<not> (ll_AccountID l = aid \<and> ll_Labels l = labels)) (label_links (tbl s1))\<rparr>\<rparr>))"

definition LabelLink_zero :: LabelLink where
  "LabelLink_zero = \<lparr>ll_ID = 0, ll_AccountID = [], ll_Labels = [], ll_Target = []\<rparr>"

definition label_link_activity :: "AddLabelLinkRequest \<Rightarrow> CentralActivity" where
  "label_link_activity req =
     \<lparr>ca_AccountServices = [],
      ca_NewLabelLinks =
        Some [\<lparr>pll_Account = al_Account req, pll_Labels = al_Labels req,
               pll_Target = al_Target req\<rparr>]\<rparr>"

text \<open>The handler overwrites the namespace of the request's account when it is empty.\<close>

definition default_namespace :: "ValidToken \<Rightarrow> AddLabelLinkRequest \<Rightarrow> AddLabelLinkRequest" where
  "default_namespace caller req =
     (if Namespace (al_Account req) = []
      then req\<lparr>al_Account := (al_Account req)\<lparr>Namespace := Namespace (token_Account caller)\<rparr>\<rparr>
      else req)"

definition AddLabelLink_store ::
  "ext \<Rightarrow> Context \<Rightarrow> AddLabelLinkRequest \<Rightarrow> Server \<Rightarrow> Noop reply \<times> Server" where
  "AddLabelLink_store x ctx req s =
     (let ao = \<lparr>acct_ID = Key x (al_Account req), acct_Namespace = Namespace (al_Account req)\<rparr>
      in case upsert_account ao s of
           (Some e, s1) \<Rightarrow> ((None, Some e), s1)
         | (None, s1) \<Rightarrow>
             (let llr = LabelLink_zero\<lparr>ll_AccountID := Key x (al_Account req),
                                        ll_Labels := FlattenLabels x (al_Labels req),
                                        ll_Target := FlattenLabels x (al_Target req)\<rparr>
              in case create_label_link llr s1 of
                   (Some e, s2) \<Rightarrow> ((None, Some e), s2)
                 | (None, s2) \<Rightarrow>
                     (let s3 = snd (broadcastActivity ctx (label_link_activity req) s2) in
                      case updateLabelLinks x (tbl s3) of
                        Some e \<Rightarrow> ((None, Some e), s3)
                      | None \<Rightarrow> ((Some Noop, None), s3))))"

definition AddLabelLink ::
  "ext \<Rightarrow> Context \<Rightarrow> AddLabelLinkRequest \<Rightarrow> Server \<Rightarrow> Noop reply \<times> Server" where
  "AddLabelLink x ctx req0 s =
     (case checkMgmtAllowed x s ctx of
        Inl e \<Rightarrow> ((None, Some e), s)
      | Inr caller \<Rightarrow>
          (let req = default_namespace caller req0 in
           if \<not> AllowAccount caller (Namespace (al_Account req))
           then ((None, Some (Wrapf ErrInvalidRequest ''invalid namespace requested'' [])), s)
           else AddLabelLink_store x ctx req s))"

definition RemoveLabelLink ::
  "ext \<Rightarrow> Context \<Rightarrow> RemoveLabelLinkRequest \<Rightarrow> Server \<Rightarrow> Noop reply \<times> Server" where
  "RemoveLabelLink x ctx req s =
     (case checkMgmtAllowed x s ctx of
        Inl e \<Rightarrow> ((None, Some e), s)
      | Inr caller \<Rightarrow>
          if \<not> AllowAccount caller (Namespace (rl_Account req))
          then ((None, Some (Wrapf ErrInvalidRequest ''invalid namespace requested'' [])), s)
          else
            (let llr = LabelLink_zero\<lparr>ll_AccountID := Key x (rl_Account req),
                                       ll_Labels := FlattenLabels x (rl_Labels req)\<rparr>
             in case delete_label_links (ll_AccountID llr) (FlattenLabels x (rl_Labels req)) s of
                  (Some e, s1) \<Rightarrow> ((None, Some e), s1)
                | (None, s1) \<Rightarrow>
                    (case updateLabelLinks x (tbl s1) of
                       Some e \<Rightarrow> ((None, Some e), s1)
                     | None \<Rightarrow> ((Some Noop, None), s1))))"

subsection \<open>CreateToken, RequestServiceToken\<close>

fun check_access_capabilities :: "ValidToken \<Rightarrow> TokenCapability list \<Rightarrow> err option" where
  "check_access_capabilities caller [] = None"
| "check_access_capabilities caller (cb # cbs) =
     (if tcap_Capability cb = ACCESS
      then (if \<not> AllowAccount caller (tcap_Value cb)
            then Some (Wrapf ErrInvalidRequest ''invalid namespace requested in access capability'' [])
            else check_access_capabilities caller cbs)
      else check_access_capabilities caller cbs)"

text \<open>The request's \<open>ValidDuration\<close> is carried as the duration it denotes.\<close>

definition CreateToken_creator :: "ext \<Rightarrow> CreateTokenRequest \<Rightarrow> TokenCreator" where
  "CreateToken_creator x req =
     (TokenCreator_zero x)\<lparr>tc_AccountId := AccountId (ct_Account req),
                             tc_AccuntNamespace := Namespace (ct_Account req),
                             tc_RawCapabilities := ct_Capabilities req,
                             tc_ValidDuration := (case ct_ValidDuration req of None \<Rightarrow> 0 | Some d \<Rightarrow> d)\<rparr>"

definition CreateToken_mint ::
  "ext \<Rightarrow> CreateTokenRequest \<Rightarrow> Server \<Rightarrow> string reply \<times> Server" where
  "CreateToken_mint x req s =
     (case EncodeED25519WithVault x (CreateToken_creator x req) of
        Inl e \<Rightarrow> ((None, Some e), s)
      | Inr token \<Rightarrow> ((Some token, None), s))"

definition CreateToken ::
  "ext \<Rightarrow> Context \<Rightarrow> CreateTokenRequest \<Rightarrow> Server \<Rightarrow> string reply \<times> Server" where
  "CreateToken x ctx req s =
     (case checkMgmtAllowed x s ctx of
        Inl e \<Rightarrow> ((None, Some e), s)
      | Inr caller \<Rightarrow>
          if \<not> AllowAccount caller (Namespace (ct_Account req))
          then ((None, Some (Wrapf ErrInvalidRequest ''invalid namespace requested'' [])), s)
          else
            (case check_access_capabilities caller (ct_Capabilities req) of
               Some e \<Rightarrow> ((None, Some e), s)
             | None \<Rightarrow>
                 (let ao = \<lparr>acct_ID = Key x (ct_Account req),
                            acct_Namespace = Namespace (ct_Account req)\<rparr>
                  in case upsert_account ao s of
                       (Some e, s1) \<Rightarrow>
                         if e \<noteq> ErrNoRows
                         then ((None, Some (Wrapf e ''creating account record'' [])), s1)
                         else CreateToken_mint x req s1
                     | (None, s1) \<Rightarrow> CreateToken_mint x req s1)))"

definition RequestServiceToken ::
  "ext \<Rightarrow> Context \<Rightarrow> ServiceTokenRequest \<Rightarrow> Server \<Rightarrow> string reply \<times> Server" where
  "RequestServiceToken x ctx req s =
     (case checkFromHub x s ctx of
        Inl e \<Rightarrow> ((None, Some e), s)
      | Inr _ \<Rightarrow>
          (let tc = (TokenCreator_zero x)\<lparr>tc_AccountId := InternalAccount x,
                      tc_AccuntNamespace := st_Namespace req,
                      tc_RawCapabilities :=
                        [\<lparr>tcap_Capability = ACCESS, tcap_Value = st_Namespace req\<rparr>,
                         \<lparr>tcap_Capability = CONNECT, tcap_Value = []\<rparr>]\<rparr>
           in case EncodeED25519WithVault x tc of
                Inl e \<Rightarrow> ((None, Some e), s)
              | Inr token \<Rightarrow> ((Some token, None), s)))"

subsection \<open>StreamActivity\<close>

text \<open>
  A session is followed along the handler's own thread. The environment supplies the
  outcome of the first \<open>Recv\<close>, the events the sender's \<open>select\<close> sees in turn, and,
  for the teardown, whether a broadcaster is waiting on the channel at each turn of the
  draining loop. The result \<open>None\<close> says that the handler does not return. The
  receiver task and its flow records are not part of the model.
\<close>

record HubActivity =
  ha_HubReg :: "ULID option"

datatype session_event = CtxDone | Delta CentralActivity "err option" | XmitClosed

text \<open>The sender: \<open>Delta act r\<close> is a delta taken from the channel together with the
  outcome \<open>r\<close> of \<open>stream.Send\<close>. With no event left the \<open>select\<close> waits for ever.\<close>

fun sender_loop :: "session_event list \<Rightarrow> err option option" where
  "sender_loop [] = None"
| "sender_loop (CtxDone # evs) = Some (Some Canceled)"
| "sender_loop (XmitClosed # evs) = Some None"
| "sender_loop (Delta act r # evs) =
     (case r of Some e \<Rightarrow> Some (Some e) | None \<Rightarrow> sender_loop evs)"

text \<open>The draining loop of the deferred function: either case of the \<open>select\<close> (a value
  received, or \<open>default\<close>) falls through to the next turn of the \<open>for\<close>.\<close>

partial_function (option) drain :: "(nat \<Rightarrow> bool) \<Rightarrow> nat \<Rightarrow> unit option" where
  "drain pending i =
     (if pending i then drain pending (Suc i) else drain pending (Suc i))"

definition session_teardown :: "string \<Rightarrow> (nat \<Rightarrow> bool) \<Rightarrow> Server \<Rightarrow> Server option" where
  "session_teardown key pending s =
     (let s1 = s\<lparr>connectedHubs := filter (\<lambda>(k, hub). k \<noteq> key) (connectedHubs s)\<rparr> in
      case drain pending 0 of None \<Rightarrow> None | Some u \<Rightarrow> Some s1)"

definition connectedHub_new :: connectedHub where
  "connectedHub_new = \<lparr>xmit = [], messages = 0, bytes_ctr = 0\<rparr>"

definition register_session :: "string \<Rightarrow> Server \<Rightarrow> Server" where
  "register_session key s =
     s\<lparr>connectedHubs := filter (\<lambda>(k, hub). k \<noteq> key) (connectedHubs s) @ [(key, connectedHub_new)]\<rparr>"

definition StreamActivity ::
  "ext \<Rightarrow> Context \<Rightarrow> err + HubActivity \<Rightarrow> session_event list \<Rightarrow> (nat \<Rightarrow> bool) \<Rightarrow> Server
     \<Rightarrow> (err option \<times> Server) option" where
  "StreamActivity x ctx first events pending s =
     (case checkFromHub x s ctx of
        Inl e \<Rightarrow> Some (Some e, s)
      | Inr _ \<Rightarrow>
          (case first of
             Inl e \<Rightarrow> Some (Some e, s)
           | Inr msg \<Rightarrow>
               (case ha_HubReg msg of
                  None \<Rightarrow> Some (None, s)
                | Some hub \<Rightarrow>
                    (let key = SpecString x hub; s1 = register_session key s in
                     case sender_loop events of
                       None \<Rightarrow> None
                     | Some r \<Rightarrow>
                         (case session_teardown key pending s1 of
                            None \<Rightarrow> None
                          | Some s2 \<Rightarrow> Some (r, s2))))))"

section \<open>An instance of the collaborators and a populated server\<close>

text \<open>
  The handlers are run on the following instance: a token codec that writes the role as
  one letter followed by the namespace, account keys that are the account ids, labels
  rendered as \<open>name=value\<close>, and materialisers that always succeed. The zero value of
  the role is taken to be a role other than \<open>HUB\<close> and \<open>MANAGE\<close>.
\<close>

definition demo_token_body :: "TokenRole \<Rightarrow> string \<Rightarrow> ValidToken" where
  "demo_token_body r ns =
     \<lparr>Body = \<lparr>Role = r, body_Id = [], body_Namespace = ns, body_Capabilities = []\<rparr>\<rparr>"

definition demo_check :: "string \<Rightarrow> bytes \<Rightarrow> err + ValidToken" where
  "demo_check tok pub =
     (case tok of
        c # d # ns \<Rightarrow>
          if d \<noteq> CHR '':'' then Inl (External ''bad token'')
          else if c = CHR ''H'' then Inr (demo_token_body HUB ns)
          else if c = CHR ''M'' then Inr (demo_token_body MANAGE ns)
          else if c = CHR ''R'' then Inr (demo_token_body (ROLE 0) ns)
          else Inl (External ''bad token'')
      | _ \<Rightarrow> Inl (External ''bad token''))"

definition demo_encode :: "TokenCreator \<Rightarrow> err + string" where
  "demo_encode tc =
     Inr ((case tc_Role tc of HUB \<Rightarrow> ''H'' | MANAGE \<Rightarrow> ''M'' | ROLE n \<Rightarrow> ''R'')
          @ '':'' @ tc_AccuntNamespace tc)"

definition demo_ext :: ext where
  "demo_ext =
     \<lparr>CheckTokenED25519 = demo_check,
      EncodeED25519WithVault = demo_encode,
      TokenRole_zero = ROLE 0,
      InternalAccount = replicate 16 0,
      Key = AccountId,
      AccountFromKey = (\<lambda>k. Inr \<lparr>Namespace = [], AccountId = k\<rparr>),
      AsStringArray = map (\<lambda>(n, v). n @ ''='' @ v),
      FlattenLabels = (\<lambda>ls. concat (map (\<lambda>(n, v). n @ ''='' @ v @ '','') ls)),
      SpecString = map (\<lambda>w. if w < 128 then CHR ''l'' else CHR ''h''),
      json_Marshal = (\<lambda>locs. Inr (concat (map (\<lambda>l. case l of NetworkLocation a \<Rightarrow> map of_char a @ [10]) locs))),
      json_Unmarshal = (\<lambda>bs. Inr (map (\<lambda>b. NetworkLocation ''loc'') (filter (\<lambda>b. b = 10) bs))),
      updateAccountRouting = (\<lambda>t a. None),
      updateLabelLinks = (\<lambda>t. None)\<rparr>"

definition stable_S :: ULID where
  "stable_S = [38, 49, 60, 71, 82, 93, 104, 115, 126, 137, 148, 159, 170, 181, 192, 203]"

definition instance_I1 :: ULID where
  "instance_I1 = [75, 86, 97, 108, 119, 130, 141, 152, 163, 174, 185, 196, 207, 218, 229, 240]"

definition instance_I2 :: ULID where
  "instance_I2 = [112, 123, 134, 145, 156, 167, 178, 189, 200, 211, 222, 233, 244, 4, 15, 26]"

definition account_A :: pb_Account where
  "account_A = \<lparr>Namespace = ''org/team'', AccountId = [149, 160, 171, 182, 193, 204, 215, 226, 237, 248, 8, 19, 30, 41, 52, 63]\<rparr>"

definition service_X :: ULID where
  "service_X = [186, 197, 208, 219, 230, 241, 1, 12, 23, 34, 45, 56, 67, 78, 89, 100]"

definition service_row_X :: Service where
  "service_row_X =
     \<lparr>svc_ID = 1, svc_ServiceId = service_X, svc_HubId = instance_I1,
      svc_AccountId = AccountId account_A, svc_Type = ''http'', svc_Description = [],
      svc_Labels = [''env=prod'']\<rparr>"

definition hub_row_S :: Hub where
  "hub_row_S =
     \<lparr>hub_StableID = stable_S, hub_InstanceID = instance_I1, hub_ConnectionInfo = [],
      hub_LastCheckin = 7\<rparr>"

definition client_row_org :: ManagementClient where
  "client_row_org = \<lparr>mc_ID = [223, 234, 245, 5, 16, 27, 38, 49, 60, 71, 82, 93, 104, 115, 126, 137], mc_Namespace = ''org''\<rparr>"

definition demo_tables :: tables where
  "demo_tables =
     \<lparr>accounts = [],
      services = [service_row_X],
      hubs = [hub_row_S],
      label_links = [],
      management_clients = [client_row_org],
      services_seq = 1,
      label_links_seq = 0\<rparr>"

definition demo_server :: Server where
  "demo_server =
     \<lparr>registerToken = ''register-secret'', pubKey = [1, 2, 3], hubCert = [4], hubKey = [5],
      cfg_HubAccessKey = ''access'', cfg_HubSecretKey = ''secret'', cfg_Bucket = ''bucket'',
      tbl = demo_tables, faults = [],
      connectedHubs = [(''h1'', connectedHub_new), (''h2'', connectedHub_new)]\<rparr>"

definition no_metadata :: Context where
  "no_metadata = \<lparr>md = None, ctx_done = False\<rparr>"

definition bearer :: "string \<Rightarrow> Context" where
  "bearer tok = \<lparr>md = Some [''authorization'' \<mapsto> [tok]], ctx_done = False\<rparr>"

definition remove_X :: ServiceRequest where
  "remove_X =
     \<lparr>sr_Account = account_A, sr_Hub = instance_I2, sr_Id = service_X, sr_Type = ''http'',
      sr_Labels = []\<rparr>"

definition fetch_I1 :: ConfigRequest where
  "fetch_I1 = \<lparr>cr_StableId = stable_S, cr_InstanceId = instance_I1, cr_Locations = []\<rparr>"

definition fetch_I2 :: ConfigRequest where
  "fetch_I2 =
     \<lparr>cr_StableId = stable_S, cr_InstanceId = instance_I2,
      cr_Locations = [NetworkLocation ''hub1'']\<rparr>"

definition disconnect_S :: HubDisconnectRequest where
  "disconnect_S = \<lparr>hd_StableId = stable_S, hd_InstanceId = instance_I1\<rparr>"

definition create_sub :: CreateTokenRequest where
  "create_sub =
     \<lparr>ct_Account = \<lparr>Namespace = ''org/team/sub'', AccountId = AccountId account_A\<rparr>,
      ct_Capabilities = [\<lparr>tcap_Capability = ACCESS, tcap_Value = ''org/team/sub''\<rparr>],
      ct_ValidDuration = None\<rparr>"

definition link_foo :: AddLabelLinkRequest where
  "link_foo =
     \<lparr>al_Account = account_A, al_Labels = [(''host'', ''foo.example'')],
      al_Target = [(''env'', ''prod'')]\<rparr>"

definition unlink_foo :: RemoveLabelLinkRequest where
  "unlink_foo = \<lparr>rl_Account = account_A, rl_Labels = [(''host'', ''foo.example'')]\<rparr>"


definition link_row_foo :: LabelLink where
  "link_row_foo =
     \<lparr>ll_ID = 1, ll_AccountID = AccountId account_A, ll_Labels = ''host=foo.example,'',
      ll_Target = ''env=prod,''\<rparr>"

definition linked_server :: Server where
  "linked_server =
     demo_server\<lparr>tbl := demo_tables\<lparr>label_links := [link_row_foo], label_links_seq := 1\<rparr>\<rparr>"

definition register_team :: ControlRegister where
  "register_team = \<lparr>reg_Namespace = ''org/team''\<rparr>"

definition create_other :: CreateTokenRequest where
  "create_other =
     \<lparr>ct_Account = \<lparr>Namespace = ''org/team/sub'', AccountId = AccountId account_A\<rparr>,
      ct_Capabilities = [\<lparr>tcap_Capability = ACCESS, tcap_Value = ''other/team''\<rparr>],
      ct_ValidDuration = None\<rparr>"

definition link_anon :: AddLabelLinkRequest where
  "link_anon =
     \<lparr>al_Account = \<lparr>Namespace = [], AccountId = AccountId account_A\<rparr>,
      al_Labels = [(''host'', ''foo.example'')], al_Target = [(''env'', ''prod'')]\<rparr>"

section \<open>Properties of the handlers\<close>

lemmas demo_defs =
  demo_ext_def demo_server_def demo_tables_def demo_check_def demo_encode_def
  demo_token_body_def bearer_def no_metadata_def md_get_def stable_S_def instance_I1_def
  instance_I2_def account_A_def service_X_def connectedHub_new_def service_row_X_def
  hub_row_S_def client_row_org_def

lemmas store_defs =
  db_Check_def delete_services_by_service_id_def find_services_by_hub_def
  delete_services_by_hub_def first_hub_for_update_def create_hub_def update_hub_def
  Rollback_def Commit_def delete_hub_by_stable_id_def create_service_def find_hubs_def
  first_management_client_like_def create_management_client_def upsert_account_def
  create_label_link_def delete_label_links_def

subsection \<open>Tokens of the instance\<close>

lemma demo_hub_token:
  "checkFromHub demo_ext s (bearer (CHR ''H'' # CHR '':'' # ns)) = Inr (demo_token_body HUB ns)"
  by (simp add: checkFromHub_def demo_defs)

subsection \<open>The draining loop\<close>

text \<open>No run of the draining loop ends: every result \<open>Some y\<close> of a turn would be the
  result of the next turn.\<close>

lemma drain_None: "drain pending i = None"
proof (cases "drain pending i")
  case None
  then show ?thesis .
next
  case (Some y)
  have False
  proof (rule drain.raw_induct [where P = "\<lambda>p i y. False", OF _ Some])
    fix d :: "(nat \<Rightarrow> bool) \<Rightarrow> nat \<Rightarrow> unit option" and p j z
    assume IH: "\<And>p i y. d p i = Some y \<Longrightarrow> False"
      and step: "(if p j then d p (Suc j) else d p (Suc j)) = Some z"
    from step have "d p (Suc j) = Some z" by (simp split: if_splits)
    then show False by (rule IH)
  qed
  then show ?thesis ..
qed

text \<open>
  Claim C4. The teardown of a session is meant to remove the session from the registry,
  drain the channel without blocking and end. In the handler the draining loop has no
  exit: the teardown never completes, whatever the broadcasters do, and a session that
  has registered and whose sender leaves its loop (here on cancellation) never returns
  from the handler.
\<close>

theorem StreamActivity_teardown_never_returns:
  "session_teardown key pending s = None \<and>
   StreamActivity demo_ext (bearer ''H:'') (Inr \<lparr>ha_HubReg = Some stable_S\<rparr>) [CtxDone]
     (\<lambda>i. False) demo_server = None"
  by (simp add: StreamActivity_def session_teardown_def drain_None demo_hub_token)

subsection \<open>HubDisconnect\<close>

text \<open>
  Claim C2. When the removal of the instance's services fails and the deletion of the
  hub row succeeds, the error returned is meant to be a composite holding the cause of
  the failed removal. On the populated server, with a store that fails the second
  statement (the deletion of the services), \<open>removeHubServices\<close> fails with the store's
  error, the hub row is deleted, and the handler returns no error at all.
\<close>

theorem HubDisconnect_loses_service_error:
  "fst (removeHubServices demo_ext instance_I1
          (demo_server\<lparr>faults := [None, Some (StoreError ''connection reset'')]\<rparr>))
     = Some (StoreError ''connection reset'') \<and>
   HubDisconnect demo_ext (bearer ''H:'') disconnect_S
       (demo_server\<lparr>faults := [None, Some (StoreError ''connection reset'')]\<rparr>)
     = ((Some Noop, None), demo_server\<lparr>tbl := demo_tables\<lparr>hubs := []\<rparr>\<rparr>)"
  by (simp add: HubDisconnect_def removeHubServices_def demo_hub_token store_defs
        demo_server_def demo_tables_def hub_row_S_def service_row_X_def stable_S_def
        instance_I1_def disconnect_S_def)

subsection \<open>RemoveService\<close>

text \<open>
  Claim C9. Two calls of \<open>RemoveService\<close> that carry different valid HUB tokens and the
  same request, on the same server, do the same: the reply and the resulting server are
  equal. When the store executes the statement, the rows left are exactly those whose
  \<open>service_id\<close> differs from the request's, whatever their hub and account and whatever
  the token holds.
\<close>

theorem RemoveService_token_independent:
  assumes "checkFromHub x s ctx1 = Inr t1" and "checkFromHub x s ctx2 = Inr t2"
    and "fst (db_Check s) = None"
  shows "RemoveService x ctx1 service s = RemoveService x ctx2 service s \<and>
         services (tbl (snd (RemoveService x ctx1 service s))) =
           filter (\<lambda>r. svc_ServiceId r \<noteq> sr_Id service) (services (tbl s))"
  using assms
  by (auto simp: RemoveService_def delete_services_by_service_id_def db_Check_def
           split: list.splits option.splits)

theorem RemoveService_token_independent_witness:
  "RemoveService demo_ext (bearer ''H:east'') remove_X demo_server
     = RemoveService demo_ext (bearer ''H:west'') remove_X demo_server \<and>
   services (tbl (snd (RemoveService demo_ext (bearer ''H:east'') remove_X demo_server))) = []"
proof -
  have a: "checkFromHub demo_ext demo_server (bearer ''H:east'') = Inr (demo_token_body HUB ''east'')"
    by (rule demo_hub_token)
  have b: "checkFromHub demo_ext demo_server (bearer ''H:west'') = Inr (demo_token_body HUB ''west'')"
    by (rule demo_hub_token)
  have c: "fst (db_Check demo_server) = None"
    by (simp add: db_Check_def demo_server_def)
  have f: "filter (\<lambda>r. svc_ServiceId r \<noteq> sr_Id remove_X) (services (tbl demo_server)) = []"
    by (simp add: remove_X_def demo_server_def demo_tables_def service_row_X_def)
  from RemoveService_token_independent [OF a b c, of remove_X]
  show ?thesis unfolding f .
qed

subsection \<open>FetchConfig\<close>

lemma db_Check_no_fault: "faults s = [] \<Longrightarrow> db_Check s = (None, s)"
  by (simp add: db_Check_def)

lemma find_map_stable:
  assumes "\<And>y. P (f y) = P y"
  shows "find P (map f xs) = map_option f (find P xs)"
  using assms by (induction xs) simp_all

lemma find_append_new:
  "find P (xs @ ys) = (case find P xs of None \<Rightarrow> find P ys | Some a \<Rightarrow> Some a)"
  by (induction xs) simp_all

lemma find_None_list_ex: "find P xs = None \<Longrightarrow> \<not> list_ex P xs"
  by (simp add: find_None_iff list_ex_iff)

lemma find_Some_holds: "find P xs = Some a \<Longrightarrow> P a"
  by (auto simp: find_Some_iff)

lemma FetchConfig_insert:
  assumes "checkFromHub x s ctx = Inr t" and "faults s = []"
    and "json_Marshal x (cr_Locations req) = Inr data"
    and "find (\<lambda>h. hub_StableID h = cr_StableId req) (hubs (tbl s)) = None"
  shows "FetchConfig x ctx req now s =
           ((Some (config_response s), None),
            s\<lparr>tbl := (tbl s)\<lparr>hubs := hubs (tbl s) @
               [\<lparr>hub_StableID = cr_StableId req, hub_InstanceID = cr_InstanceId req,
                 hub_ConnectionInfo = data, hub_LastCheckin = now\<rparr>]\<rparr>\<rparr>)"
  using assms find_None_list_ex [OF assms(4)]
  by (simp add: FetchConfig_def first_hub_for_update_def db_Check_no_fault
        FetchConfig_create_def create_hub_def FetchConfig_commit_def Commit_def
        config_response_def Hub_zero_def)

lemma FetchConfig_rotate:
  assumes "checkFromHub x s ctx = Inr t" and "faults s = []"
    and "json_Marshal x (cr_Locations req) = Inr data"
    and "find (\<lambda>h. hub_StableID h = cr_StableId req) (hubs (tbl s)) = Some hr"
    and "hub_InstanceID hr \<noteq> cr_InstanceId req"
    and "cr_StableId req \<noteq> []"
    and "routing_loop x
           ((tbl s)\<lparr>services := filter (\<lambda>r. svc_HubId r \<noteq> hub_InstanceID hr) (services (tbl s))\<rparr>)
           (filter (\<lambda>r. svc_HubId r = hub_InstanceID hr) (services (tbl s))) = None"
  shows "FetchConfig x ctx req now s =
           ((Some (config_response s), None),
            s\<lparr>tbl := (tbl s)
               \<lparr>services := filter (\<lambda>r. svc_HubId r \<noteq> hub_InstanceID hr) (services (tbl s)),
                hubs := map (\<lambda>h. if hub_StableID h = cr_StableId req
                                  then h\<lparr>hub_ConnectionInfo := data,
                                         hub_InstanceID := cr_InstanceId req,
                                         hub_LastCheckin := now\<rparr>
                                  else h) (hubs (tbl s))\<rparr>\<rparr>)"
proof -
  have k: "hub_StableID hr = cr_StableId req"
    using find_Some_holds [OF assms(4)] .
  show ?thesis
    using assms k
    by (simp add: FetchConfig_def first_hub_for_update_def db_Check_no_fault
          FetchConfig_update_def removeHubServices_def find_services_by_hub_def
          delete_services_by_hub_def update_hub_def FetchConfig_commit_def Commit_def
          config_response_def)
qed

lemma FetchConfig_refresh:
  assumes "checkFromHub x s ctx = Inr t" and "faults s = []"
    and "json_Marshal x (cr_Locations req) = Inr data"
    and "find (\<lambda>h. hub_StableID h = cr_StableId req) (hubs (tbl s)) = Some hr"
    and "hub_InstanceID hr = cr_InstanceId req"
    and "cr_StableId req \<noteq> []"
  shows "FetchConfig x ctx req now s =
           ((Some (config_response s), None),
            s\<lparr>tbl := (tbl s)
               \<lparr>hubs := map (\<lambda>h. if hub_StableID h = cr_StableId req
                                  then h\<lparr>hub_ConnectionInfo := data,
                                         hub_InstanceID := cr_InstanceId req,
                                         hub_LastCheckin := now\<rparr>
                                  else h) (hubs (tbl s))\<rparr>\<rparr>)"
proof -
  have k: "hub_StableID hr = cr_StableId req"
    using find_Some_holds [OF assms(4)] .
  show ?thesis
    using assms k
    by (simp add: FetchConfig_def first_hub_for_update_def db_Check_no_fault
          FetchConfig_update_def update_hub_def FetchConfig_commit_def Commit_def
          config_response_def)
qed


lemma FetchConfig_rotate_fails:
  assumes "checkFromHub x s ctx = Inr t" and "faults s = []"
    and "json_Marshal x (cr_Locations req) = Inr data"
    and "find (\<lambda>h. hub_StableID h = cr_StableId req) (hubs (tbl s)) = Some hr"
    and "hub_InstanceID hr \<noteq> cr_InstanceId req"
    and "routing_loop x
           ((tbl s)\<lparr>services := filter (\<lambda>r. svc_HubId r \<noteq> hub_InstanceID hr) (services (tbl s))\<rparr>)
           (filter (\<lambda>r. svc_HubId r = hub_InstanceID hr) (services (tbl s))) = Some e"
  shows "FetchConfig x ctx req now s = ((None, Some e), s)"
  using assms
  by (simp add: FetchConfig_def first_hub_for_update_def db_Check_no_fault
        FetchConfig_update_def removeHubServices_def find_services_by_hub_def
        delete_services_by_hub_def Rollback_def)

lemma FetchConfig_success:
  assumes nf: "faults s = []" and stable: "cr_StableId req \<noteq> []"
    and ok: "FetchConfig x ctx req now s = ((Some r, None), s')"
  shows "faults s' = []"
    and "\<exists>h. find (\<lambda>h. hub_StableID h = cr_StableId req) (hubs (tbl s')) = Some h \<and>
             hub_InstanceID h = cr_InstanceId req"
    and "find (\<lambda>h. hub_StableID h = cr_StableId req) (hubs (tbl s)) = Some hr \<Longrightarrow>
         hub_InstanceID hr \<noteq> cr_InstanceId req \<Longrightarrow>
         services (tbl s') = filter (\<lambda>r. svc_HubId r \<noteq> hub_InstanceID hr) (services (tbl s))"
proof -
  obtain t where auth: "checkFromHub x s ctx = Inr t"
    using ok by (cases "checkFromHub x s ctx") (simp_all add: FetchConfig_def)
  obtain data where data: "json_Marshal x (cr_Locations req) = Inr data"
    using ok auth by (cases "json_Marshal x (cr_Locations req)") (simp_all add: FetchConfig_def)
  let ?P = "\<lambda>h. hub_StableID h = cr_StableId req"
  let ?f = "\<lambda>h. if hub_StableID h = cr_StableId req
                  then h\<lparr>hub_ConnectionInfo := data, hub_InstanceID := cr_InstanceId req,
                         hub_LastCheckin := now\<rparr>
                  else h"
  have mapped: "find ?P (map ?f (hubs (tbl s))) = map_option ?f (find ?P (hubs (tbl s)))"
    by (rule find_map_stable) simp
  have shape: "faults s' = [] \<and>
      (\<exists>h. find ?P (hubs (tbl s')) = Some h \<and> hub_InstanceID h = cr_InstanceId req) \<and>
      (\<forall>hr. find ?P (hubs (tbl s)) = Some hr \<and> hub_InstanceID hr \<noteq> cr_InstanceId req \<longrightarrow>
         services (tbl s') = filter (\<lambda>r. svc_HubId r \<noteq> hub_InstanceID hr) (services (tbl s)))"
  proof (cases "find ?P (hubs (tbl s))")
    case None
    from FetchConfig_insert [OF auth nf data None, of now] ok
    have s': "s' = s\<lparr>tbl := (tbl s)\<lparr>hubs := hubs (tbl s) @
               [\<lparr>hub_StableID = cr_StableId req, hub_InstanceID = cr_InstanceId req,
                 hub_ConnectionInfo = data, hub_LastCheckin = now\<rparr>]\<rparr>\<rparr>"
      by simp
    show ?thesis using nf None by (simp add: s' find_append_new)
  next
    case (Some h0)
    have k: "?P h0" using find_Some_holds [OF Some] .
    show ?thesis
    proof (cases "hub_InstanceID h0 = cr_InstanceId req")
      case True
      from FetchConfig_refresh [OF auth nf data Some True stable, of now] ok
      have s': "s' = s\<lparr>tbl := (tbl s)\<lparr>hubs := map ?f (hubs (tbl s))\<rparr>\<rparr>"
        by simp
      have "find ?P (map ?f (hubs (tbl s))) = Some (?f h0)"
        using mapped Some by simp
      then show ?thesis using nf Some True k by (simp add: s')
    next
      case False
      let ?t = "(tbl s)\<lparr>services := filter (\<lambda>r. svc_HubId r \<noteq> hub_InstanceID h0) (services (tbl s))\<rparr>"
      let ?sos = "filter (\<lambda>r. svc_HubId r = hub_InstanceID h0) (services (tbl s))"
      show ?thesis
      proof (cases "routing_loop x ?t ?sos")
        case None
        from FetchConfig_rotate [OF auth nf data Some False stable None, of now] ok
        have s': "s' = s\<lparr>tbl := (tbl s)
               \<lparr>services := filter (\<lambda>r. svc_HubId r \<noteq> hub_InstanceID h0) (services (tbl s)),
                hubs := map ?f (hubs (tbl s))\<rparr>\<rparr>"
          by simp
        have "find ?P (map ?f (hubs (tbl s))) = Some (?f h0)"
          using mapped Some by simp
        then show ?thesis using nf Some k by (simp add: s')
      next
        case (Some e)
        from FetchConfig_rotate_fails [OF auth nf data \<open>find ?P (hubs (tbl s)) = Some h0\<close> False Some, of now] ok
        show ?thesis by simp
      qed
    qed
  qed
  show "faults s' = []" using shape by blast
  show "\<exists>h. find ?P (hubs (tbl s')) = Some h \<and> hub_InstanceID h = cr_InstanceId req"
    using shape by blast
  show "find ?P (hubs (tbl s)) = Some hr \<Longrightarrow> hub_InstanceID hr \<noteq> cr_InstanceId req \<Longrightarrow>
         services (tbl s') = filter (\<lambda>r. svc_HubId r \<noteq> hub_InstanceID hr) (services (tbl s))"
    using shape by blast
qed

lemma FetchConfig_twice:
  assumes nf: "faults s = []" and stable: "cr_StableId req \<noteq> []"
    and one: "FetchConfig x ctx req now s = ((Some r1, None), s1)"
    and two: "FetchConfig x ctx2 req2 now2 s1 = ((Some r2, None), s2)"
    and same: "cr_StableId req2 = cr_StableId req"
    and other: "cr_InstanceId req2 \<noteq> cr_InstanceId req"
  shows "\<not> list_ex (\<lambda>r. svc_HubId r = cr_InstanceId req) (services (tbl s2))"
proof -
  from FetchConfig_success(1) [OF nf stable one] have nf1: "faults s1 = []" .
  from FetchConfig_success(2) [OF nf stable one] obtain h
    where h: "find (\<lambda>h. hub_StableID h = cr_StableId req) (hubs (tbl s1)) = Some h"
      and hi: "hub_InstanceID h = cr_InstanceId req"
    by blast
  have stable2: "cr_StableId req2 \<noteq> []" using stable same by simp
  have h2: "find (\<lambda>h. hub_StableID h = cr_StableId req2) (hubs (tbl s1)) = Some h"
    using h same by simp
  have "hub_InstanceID h \<noteq> cr_InstanceId req2" using hi other by simp
  from FetchConfig_success(3) [OF nf1 stable2 two h2 this]
  show ?thesis by (simp add: hi list_ex_iff)
qed


lemma FetchConfig_commit_error:
  "snd (fst (FetchConfig_commit snapshot s)) = Some e \<Longrightarrow>
     tbl (snd (FetchConfig_commit snapshot s)) = snapshot"
  by (auto simp: FetchConfig_commit_def Commit_def Rollback_def db_Check_def
           split: list.splits option.splits)

lemma FetchConfig_create_error:
  "snd (fst (FetchConfig_create req data now snapshot s)) = Some e \<Longrightarrow>
     tbl (snd (FetchConfig_create req data now snapshot s)) = snapshot"
  by (auto simp: FetchConfig_create_def create_hub_def Rollback_def db_Check_def Let_def
           FetchConfig_commit_error
           split: list.splits option.splits if_splits)

lemma FetchConfig_update_error:
  "snd (fst (FetchConfig_update x req hr data now snapshot s)) = Some e \<Longrightarrow>
     tbl (snd (FetchConfig_update x req hr data now snapshot s)) = snapshot"
  by (auto simp: FetchConfig_update_def update_hub_def Rollback_def db_Check_def Let_def
           FetchConfig_commit_error
           split: list.splits option.splits if_splits prod.splits)

lemma FetchConfig_error_keeps_tables:
  assumes "snd (fst (FetchConfig x ctx req now s)) = Some e"
  shows "tbl (snd (FetchConfig x ctx req now s)) = tbl s"
proof (cases "checkFromHub x s ctx")
  case (Inl a)
  then show ?thesis by (simp add: FetchConfig_def)
next
  case (Inr t)
  show ?thesis
  proof (cases "json_Marshal x (cr_Locations req)")
    case (Inl a)
    then show ?thesis using Inr by (simp add: FetchConfig_def)
  next
    case data: (Inr data)
    obtain r s1 where f: "first_hub_for_update (cr_StableId req) s = (r, s1)"
      by (cases "first_hub_for_update (cr_StableId req) s")
    show ?thesis
    proof (cases "r = Inl ErrRecordNotFound")
      case True
      with assms Inr data f
      have "snd (fst (FetchConfig_create req data now (tbl s) s1)) = Some e"
        by (simp add: FetchConfig_def)
      from FetchConfig_create_error [OF this] True Inr data f
      show ?thesis by (simp add: FetchConfig_def)
    next
      case False
      let ?hr = "case r of Inr h \<Rightarrow> h | Inl _ \<Rightarrow> Hub_zero"
      from assms Inr data f False
      have "snd (fst (FetchConfig_update x req ?hr data now (tbl s) s1)) = Some e"
        by (simp add: FetchConfig_def)
      from FetchConfig_update_error [OF this] False Inr data f
      show ?thesis by (simp add: FetchConfig_def)
    qed
  qed
qed

lemma FetchConfig_rotates_later:
  assumes nf: "faults s = []" and stable: "cr_StableId req \<noteq> []"
    and one: "FetchConfig x ctx req now s = ((Some r1, None), s1)"
    and nf': "faults s1' = []"
    and same_row: "find (\<lambda>h. hub_StableID h = cr_StableId req) (hubs (tbl s1'))
                 = find (\<lambda>h. hub_StableID h = cr_StableId req) (hubs (tbl s1))"
    and two: "FetchConfig x ctx2 req2 now2 s1' = ((Some r2, None), s2)"
    and same: "cr_StableId req2 = cr_StableId req"
    and other: "cr_InstanceId req2 \<noteq> cr_InstanceId req"
  shows "\<not> list_ex (\<lambda>r. svc_HubId r = cr_InstanceId req) (services (tbl s2))"
proof -
  from FetchConfig_success(2) [OF nf stable one] obtain h
    where h: "find (\<lambda>h. hub_StableID h = cr_StableId req) (hubs (tbl s1)) = Some h"
      and hi: "hub_InstanceID h = cr_InstanceId req"
    by blast
  have stable2: "cr_StableId req2 \<noteq> []" using stable same by simp
  have h2: "find (\<lambda>h. hub_StableID h = cr_StableId req2) (hubs (tbl s1')) = Some h"
    using h same same_row by simp
  have "hub_InstanceID h \<noteq> cr_InstanceId req2" using hi other by simp
  from FetchConfig_success(3) [OF nf' stable2 two h2 this]
  show ?thesis by (simp add: hi list_ex_iff)
qed

text \<open>
  Claim C3. With a valid HUB token, a store that executes every statement, locations
  that serialise and a non-blank stable id, \<open>FetchConfig\<close> does the following. If no
  hub row has the stable id, one is inserted. If a row has it and stores another instance
  id, every service row whose \<open>hub_id\<close> is the stored instance id is deleted and the
  row is updated, in one transaction: when the routing of the accounts of the deleted
  rows is re-materialised without error both changes are made, when it fails the call
  returns that error and the server is as it was, and, whichever statement the store
  fails, a call that returns an error leaves every table as it was. Otherwise the row's
  connection information and last check-in are refreshed. Consequently, when a call for
  stable id \<open>S\<close> and instance \<open>I\<close> succeeds and a call for \<open>S\<close> and another
  instance succeeds on the resulting server, or on any later server whose store executes
  every statement and whose row for \<open>S\<close> is the same, no service row with
  \<open>hub_id = I\<close> remains.
\<close>

theorem FetchConfig_contract:
  assumes "checkFromHub x s ctx = Inr t" and "faults s = []"
    and "json_Marshal x (cr_Locations req) = Inr data" and "cr_StableId req \<noteq> []"
  shows
   "(find (\<lambda>h. hub_StableID h = cr_StableId req) (hubs (tbl s)) = None \<longrightarrow>
       FetchConfig x ctx req now s =
         ((Some (config_response s), None),
          s\<lparr>tbl := (tbl s)\<lparr>hubs := hubs (tbl s) @
             [\<lparr>hub_StableID = cr_StableId req, hub_InstanceID = cr_InstanceId req,
               hub_ConnectionInfo = data, hub_LastCheckin = now\<rparr>]\<rparr>\<rparr>)) \<and>
    (\<forall>hr. find (\<lambda>h. hub_StableID h = cr_StableId req) (hubs (tbl s)) = Some hr \<and>
          hub_InstanceID hr \<noteq> cr_InstanceId req \<and>
          routing_loop x
            ((tbl s)\<lparr>services := filter (\<lambda>r. svc_HubId r \<noteq> hub_InstanceID hr) (services (tbl s))\<rparr>)
            (filter (\<lambda>r. svc_HubId r = hub_InstanceID hr) (services (tbl s))) = None \<longrightarrow>
       FetchConfig x ctx req now s =
         ((Some (config_response s), None),
          s\<lparr>tbl := (tbl s)
             \<lparr>services := filter (\<lambda>r. svc_HubId r \<noteq> hub_InstanceID hr) (services (tbl s)),
              hubs := map (\<lambda>h. if hub_StableID h = cr_StableId req
                                then h\<lparr>hub_ConnectionInfo := data,
                                       hub_InstanceID := cr_InstanceId req,
                                       hub_LastCheckin := now\<rparr>
                                else h) (hubs (tbl s))\<rparr>\<rparr>)) \<and>
    (\<forall>hr. find (\<lambda>h. hub_StableID h = cr_StableId req) (hubs (tbl s)) = Some hr \<and>
          hub_InstanceID hr = cr_InstanceId req \<longrightarrow>
       FetchConfig x ctx req now s =
         ((Some (config_response s), None),
          s\<lparr>tbl := (tbl s)
             \<lparr>hubs := map (\<lambda>h. if hub_StableID h = cr_StableId req
                                then h\<lparr>hub_ConnectionInfo := data,
                                       hub_InstanceID := cr_InstanceId req,
                                       hub_LastCheckin := now\<rparr>
                                else h) (hubs (tbl s))\<rparr>\<rparr>)) \<and>
    (\<forall>r1 s1 ctx2 req2 now2 r2 s2.
       FetchConfig x ctx req now s = ((Some r1, None), s1) \<and>
       FetchConfig x ctx2 req2 now2 s1 = ((Some r2, None), s2) \<and>
       cr_StableId req2 = cr_StableId req \<and> cr_InstanceId req2 \<noteq> cr_InstanceId req \<longrightarrow>
       \<not> list_ex (\<lambda>r. svc_HubId r = cr_InstanceId req) (services (tbl s2))) \<and>
    (\<forall>hr e. find (\<lambda>h. hub_StableID h = cr_StableId req) (hubs (tbl s)) = Some hr \<and>
          hub_InstanceID hr \<noteq> cr_InstanceId req \<and>
          routing_loop x
            ((tbl s)\<lparr>services := filter (\<lambda>r. svc_HubId r \<noteq> hub_InstanceID hr) (services (tbl s))\<rparr>)
            (filter (\<lambda>r. svc_HubId r = hub_InstanceID hr) (services (tbl s))) = Some e \<longrightarrow>
       FetchConfig x ctx req now s = ((None, Some e), s)) \<and>
    (\<forall>fs e. snd (fst (FetchConfig x ctx req now (s\<lparr>faults := fs\<rparr>))) = Some e \<longrightarrow>
       tbl (snd (FetchConfig x ctx req now (s\<lparr>faults := fs\<rparr>))) = tbl s) \<and>
    (\<forall>r1 s1 s1' ctx2 req2 now2 r2 s2.
       FetchConfig x ctx req now s = ((Some r1, None), s1) \<and>
       faults s1' = [] \<and>
       find (\<lambda>h. hub_StableID h = cr_StableId req) (hubs (tbl s1'))
         = find (\<lambda>h. hub_StableID h = cr_StableId req) (hubs (tbl s1)) \<and>
       FetchConfig x ctx2 req2 now2 s1' = ((Some r2, None), s2) \<and>
       cr_StableId req2 = cr_StableId req \<and> cr_InstanceId req2 \<noteq> cr_InstanceId req \<longrightarrow>
       \<not> list_ex (\<lambda>r. svc_HubId r = cr_InstanceId req) (services (tbl s2)))"
proof (intro conjI allI impI)
  assume "find (\<lambda>h. hub_StableID h = cr_StableId req) (hubs (tbl s)) = None"
  then show "FetchConfig x ctx req now s =
         ((Some (config_response s), None),
          s\<lparr>tbl := (tbl s)\<lparr>hubs := hubs (tbl s) @
             [\<lparr>hub_StableID = cr_StableId req, hub_InstanceID = cr_InstanceId req,
               hub_ConnectionInfo = data, hub_LastCheckin = now\<rparr>]\<rparr>\<rparr>)"
    by (rule FetchConfig_insert [OF assms(1,2,3)])
next
  fix hr
  assume "find (\<lambda>h. hub_StableID h = cr_StableId req) (hubs (tbl s)) = Some hr \<and>
          hub_InstanceID hr \<noteq> cr_InstanceId req \<and>
          routing_loop x
            ((tbl s)\<lparr>services := filter (\<lambda>r. svc_HubId r \<noteq> hub_InstanceID hr) (services (tbl s))\<rparr>)
            (filter (\<lambda>r. svc_HubId r = hub_InstanceID hr) (services (tbl s))) = None"
  then show "FetchConfig x ctx req now s =
         ((Some (config_response s), None),
          s\<lparr>tbl := (tbl s)
             \<lparr>services := filter (\<lambda>r. svc_HubId r \<noteq> hub_InstanceID hr) (services (tbl s)),
              hubs := map (\<lambda>h. if hub_StableID h = cr_StableId req
                                then h\<lparr>hub_ConnectionInfo := data,
                                       hub_InstanceID := cr_InstanceId req,
                                       hub_LastCheckin := now\<rparr>
                                else h) (hubs (tbl s))\<rparr>\<rparr>)"
    using FetchConfig_rotate [OF assms(1,2,3) _ _ assms(4)] by blast
next
  fix hr
  assume "find (\<lambda>h. hub_StableID h = cr_StableId req) (hubs (tbl s)) = Some hr \<and>
          hub_InstanceID hr = cr_InstanceId req"
  then show "FetchConfig x ctx req now s =
         ((Some (config_response s), None),
          s\<lparr>tbl := (tbl s)
             \<lparr>hubs := map (\<lambda>h. if hub_StableID h = cr_StableId req
                                then h\<lparr>hub_ConnectionInfo := data,
                                       hub_InstanceID := cr_InstanceId req,
                                       hub_LastCheckin := now\<rparr>
                                else h) (hubs (tbl s))\<rparr>\<rparr>)"
    using FetchConfig_refresh [OF assms(1,2,3) _ _ assms(4)] by blast
next
  fix r1 s1 ctx2 req2 now2 r2 s2
  assume h: "FetchConfig x ctx req now s = ((Some r1, None), s1) \<and>
       FetchConfig x ctx2 req2 now2 s1 = ((Some r2, None), s2) \<and>
       cr_StableId req2 = cr_StableId req \<and> cr_InstanceId req2 \<noteq> cr_InstanceId req"
  show "\<not> list_ex (\<lambda>r. svc_HubId r = cr_InstanceId req) (services (tbl s2))"
    using FetchConfig_twice [OF assms(2,4), of x ctx now r1 s1 ctx2 req2 now2 r2 s2] h by blast
next
  fix hr e
  assume "find (\<lambda>h. hub_StableID h = cr_StableId req) (hubs (tbl s)) = Some hr \<and>
          hub_InstanceID hr \<noteq> cr_InstanceId req \<and>
          routing_loop x
            ((tbl s)\<lparr>services := filter (\<lambda>r. svc_HubId r \<noteq> hub_InstanceID hr) (services (tbl s))\<rparr>)
            (filter (\<lambda>r. svc_HubId r = hub_InstanceID hr) (services (tbl s))) = Some e"
  then show "FetchConfig x ctx req now s = ((None, Some e), s)"
    using FetchConfig_rotate_fails [OF assms(1,2,3)] by blast
next
  fix fs e
  assume "snd (fst (FetchConfig x ctx req now (s\<lparr>faults := fs\<rparr>))) = Some e"
  from FetchConfig_error_keeps_tables [OF this]
  show "tbl (snd (FetchConfig x ctx req now (s\<lparr>faults := fs\<rparr>))) = tbl s"
    by simp
next
  fix r1 s1 s1' ctx2 req2 now2 r2 s2
  assume h: "FetchConfig x ctx req now s = ((Some r1, None), s1) \<and>
       faults s1' = [] \<and>
       find (\<lambda>h. hub_StableID h = cr_StableId req) (hubs (tbl s1'))
         = find (\<lambda>h. hub_StableID h = cr_StableId req) (hubs (tbl s1)) \<and>
       FetchConfig x ctx2 req2 now2 s1' = ((Some r2, None), s2) \<and>
       cr_StableId req2 = cr_StableId req \<and> cr_InstanceId req2 \<noteq> cr_InstanceId req"
  show "\<not> list_ex (\<lambda>r. svc_HubId r = cr_InstanceId req) (services (tbl s2))"
    using FetchConfig_rotates_later [OF assms(2,4), of x ctx now r1 s1 s1' ctx2 req2 now2 r2 s2] h
    by blast
qed

theorem FetchConfig_contract_witness:
  "FetchConfig demo_ext (bearer ''H:'') fetch_I2 9 demo_server =
     ((Some (config_response demo_server), None),
      demo_server\<lparr>tbl := demo_tables
        \<lparr>services := [],
         hubs := [\<lparr>hub_StableID = stable_S, hub_InstanceID = instance_I2,
                   hub_ConnectionInfo = [104, 117, 98, 49, 10], hub_LastCheckin = 9\<rparr>]\<rparr>\<rparr>) \<and>
   \<not> list_ex (\<lambda>r. svc_HubId r = instance_I1)
       (services (tbl (snd (FetchConfig demo_ext (bearer ''H:'') fetch_I2 9
          (snd (FetchConfig demo_ext (bearer ''H:'') fetch_I1 8 demo_server)))))) \<and>
   FetchConfig demo_ext (bearer ''H:'') fetch_I2 9
       (demo_server\<lparr>faults := [None, None, None, Some (StoreError ''connection reset'')]\<rparr>)
     = ((None, Some (StoreError ''connection reset'')), demo_server) \<and>
   tbl (snd (FetchConfig demo_ext (bearer ''H:'') fetch_I2 9
       (demo_server\<lparr>faults := [None, None, None, Some (StoreError ''connection reset'')]\<rparr>)))
     = tbl demo_server"
proof -
  have a: "checkFromHub demo_ext demo_server (bearer ''H:'') = Inr (demo_token_body HUB [])"
    by (rule demo_hub_token)
  have b: "faults demo_server = []"
    by (simp add: demo_server_def)
  have c: "json_Marshal demo_ext (cr_Locations fetch_I2) = Inr [104, 117, 98, 49, 10]"
    by (simp add: demo_ext_def fetch_I2_def)
  have d: "cr_StableId fetch_I2 \<noteq> []"
    by (simp add: fetch_I2_def stable_S_def)
  have e: "find (\<lambda>h. hub_StableID h = cr_StableId fetch_I2) (hubs (tbl demo_server)) = Some hub_row_S \<and>
           hub_InstanceID hub_row_S \<noteq> cr_InstanceId fetch_I2 \<and>
           routing_loop demo_ext
             ((tbl demo_server)\<lparr>services := filter (\<lambda>r. svc_HubId r \<noteq> hub_InstanceID hub_row_S) (services (tbl demo_server))\<rparr>)
             (filter (\<lambda>r. svc_HubId r = hub_InstanceID hub_row_S) (services (tbl demo_server))) = None"
    by (simp add: demo_defs fetch_I2_def)
  from FetchConfig_contract [OF a b c d, of 9, THEN conjunct2, THEN conjunct1, rule_format, OF e]
  have rotation: "FetchConfig demo_ext (bearer ''H:'') fetch_I2 9 demo_server =
     ((Some (config_response demo_server), None),
      demo_server\<lparr>tbl := demo_tables
        \<lparr>services := [],
         hubs := [\<lparr>hub_StableID = stable_S, hub_InstanceID = instance_I2,
                   hub_ConnectionInfo = [104, 117, 98, 49, 10], hub_LastCheckin = 9\<rparr>]\<rparr>\<rparr>)"
    by (simp add: demo_server_def demo_tables_def hub_row_S_def service_row_X_def fetch_I2_def
          stable_S_def instance_I1_def instance_I2_def)
  have c1: "json_Marshal demo_ext (cr_Locations fetch_I1) = Inr []"
    by (simp add: demo_ext_def fetch_I1_def)
  have d1: "cr_StableId fetch_I1 \<noteq> []"
    by (simp add: fetch_I1_def stable_S_def)
  let ?s1 = "snd (FetchConfig demo_ext (bearer ''H:'') fetch_I1 8 demo_server)"
  let ?s2 = "snd (FetchConfig demo_ext (bearer ''H:'') fetch_I2 9 ?s1)"
  have one: "FetchConfig demo_ext (bearer ''H:'') fetch_I1 8 demo_server
               = ((Some (config_response demo_server), None), ?s1)"
    by (simp add: FetchConfig_def checkFromHub_def FetchConfig_update_def FetchConfig_commit_def
          config_response_def store_defs fetch_I1_def demo_defs)
  have two: "FetchConfig demo_ext (bearer ''H:'') fetch_I2 9 ?s1
               = ((Some (config_response demo_server), None), ?s2)"
    by (simp add: FetchConfig_def checkFromHub_def FetchConfig_update_def FetchConfig_commit_def
          removeHubServices_def config_response_def store_defs fetch_I1_def fetch_I2_def demo_defs)
  have f: "FetchConfig demo_ext (bearer ''H:'') fetch_I1 8 demo_server
               = ((Some (config_response demo_server), None), ?s1) \<and>
           FetchConfig demo_ext (bearer ''H:'') fetch_I2 9 ?s1
               = ((Some (config_response demo_server), None), ?s2) \<and>
           cr_StableId fetch_I2 = cr_StableId fetch_I1 \<and>
           cr_InstanceId fetch_I2 \<noteq> cr_InstanceId fetch_I1"
    using one two by (simp add: fetch_I1_def fetch_I2_def instance_I1_def instance_I2_def)
  from FetchConfig_contract [OF a b c1 d1, of 8, THEN conjunct2, THEN conjunct2, THEN conjunct2,
         THEN conjunct1, rule_format, OF f]
  have twice: "\<not> list_ex (\<lambda>r. svc_HubId r = instance_I1) (services (tbl ?s2))"
    by (simp add: fetch_I1_def)
  have failed: "FetchConfig demo_ext (bearer ''H:'') fetch_I2 9
       (demo_server\<lparr>faults := [None, None, None, Some (StoreError ''connection reset'')]\<rparr>)
     = ((None, Some (StoreError ''connection reset'')), demo_server)"
    by (simp add: FetchConfig_def checkFromHub_def FetchConfig_update_def removeHubServices_def
          store_defs fetch_I2_def demo_defs)
  then have g: "snd (fst (FetchConfig demo_ext (bearer ''H:'') fetch_I2 9
       (demo_server\<lparr>faults := [None, None, None, Some (StoreError ''connection reset'')]\<rparr>)))
     = Some (StoreError ''connection reset'')"
    by simp
  from FetchConfig_contract [OF a b c d, of 9, THEN conjunct2, THEN conjunct2, THEN conjunct2,
         THEN conjunct2, THEN conjunct2, THEN conjunct1, rule_format, OF g]
  have atomic: "tbl (snd (FetchConfig demo_ext (bearer ''H:'') fetch_I2 9
       (demo_server\<lparr>faults := [None, None, None, Some (StoreError ''connection reset'')]\<rparr>)))
     = tbl demo_server" .
  from rotation twice failed atomic show ?thesis by blast
qed


subsection \<open>Authentication gates\<close>

lemma hub_gate_rejects:
  assumes "checkFromHub x s ctx = Inl e"
  shows "AddService x ctx sreq s = ((None, Some e), s)"
    and "RemoveService x ctx sreq s = ((None, Some e), s)"
    and "FetchConfig x ctx creq now s = ((None, Some e), s)"
    and "HubDisconnect x ctx dreq s = ((None, Some e), s)"
    and "RequestServiceToken x ctx treq s = ((None, Some e), s)"
    and "StreamActivity x ctx first events pending s = Some (Some e, s)"
  using assms
  by (simp_all add: AddService_def RemoveService_def FetchConfig_def HubDisconnect_def
        RequestServiceToken_def StreamActivity_def)

lemma mgmt_gate_rejects:
  assumes "checkMgmtAllowed x s ctx = Inl e"
  shows "AddLabelLink x ctx areq s = ((None, Some e), s)"
    and "RemoveLabelLink x ctx rreq s = ((None, Some e), s)"
    and "CreateToken x ctx kreq s = ((None, Some e), s)"
  using assms
  by (simp_all add: AddLabelLink_def RemoveLabelLink_def CreateToken_def)

lemma gates_no_metadata:
  assumes "md ctx = None"
  shows "checkFromHub x s ctx = Inl ErrBadAuthentication"
    and "checkMgmtAllowed x s ctx = Inl ErrBadAuthentication"
  using assms by (simp_all add: checkFromHub_def checkMgmtAllowed_def)

lemma gates_no_authorization:
  assumes "md ctx = Some m" and "md_get m ''authorization'' = []"
  shows "checkFromHub x s ctx = Inl ErrBadAuthentication"
    and "checkMgmtAllowed x s ctx = Inl ErrBadAuthentication"
  using assms by (simp_all add: checkFromHub_def checkMgmtAllowed_def)

lemma gates_verifier_error:
  assumes "md ctx = Some m" and "md_get m ''authorization'' = tok # rest"
    and "CheckTokenED25519 x tok (pubKey s) = Inl e"
  shows "checkFromHub x s ctx = Inl e"
    and "checkMgmtAllowed x s ctx = Inl e"
  using assms by (simp_all add: checkFromHub_def checkMgmtAllowed_def)

lemma gates_wrong_role:
  assumes "md ctx = Some m" and "md_get m ''authorization'' = tok # rest"
    and "CheckTokenED25519 x tok (pubKey s) = Inr t"
  shows "Role (Body t) \<noteq> HUB \<Longrightarrow>
           checkFromHub x s ctx = Inl (Wrapf ErrBadAuthentication ''role was: %s'' [Role (Body t)])"
    and "Role (Body t) \<noteq> MANAGE \<Longrightarrow> checkMgmtAllowed x s ctx = Inl ErrBadAuthentication"
  using assms by (simp_all add: checkFromHub_def checkMgmtAllowed_def)

text \<open>
  Claim C1, as amended. \<open>AddService\<close>, \<open>RemoveService\<close>, \<open>FetchConfig\<close>,
  \<open>HubDisconnect\<close>, \<open>RequestServiceToken\<close> and \<open>StreamActivity\<close> answer a request
  that fails the hub check with the error of the check, and \<open>AddLabelLink\<close>,
  \<open>RemoveLabelLink\<close> and \<open>CreateToken\<close> answer a request that fails the management
  check with the error of that check; the server is left as it was. Both checks fail
  with \<open>ErrBadAuthentication\<close> when the metadata is missing or holds no authorization
  value, and with the verifier's own error when the verifier rejects the bearer; a role
  other than the required one gives \<open>ErrBadAuthentication\<close>, wrapped with the role by
  the hub check.
\<close>

theorem auth_gating:
  "(checkFromHub x s ctx = Inl e \<longrightarrow>
      AddService x ctx sreq s = ((None, Some e), s) \<and>
      RemoveService x ctx sreq s = ((None, Some e), s) \<and>
      FetchConfig x ctx creq now s = ((None, Some e), s) \<and>
      HubDisconnect x ctx dreq s = ((None, Some e), s) \<and>
      RequestServiceToken x ctx treq s = ((None, Some e), s) \<and>
      StreamActivity x ctx first events pending s = Some (Some e, s)) \<and>
   (checkMgmtAllowed x s ctx = Inl e \<longrightarrow>
      AddLabelLink x ctx areq s = ((None, Some e), s) \<and>
      RemoveLabelLink x ctx rreq s = ((None, Some e), s) \<and>
      CreateToken x ctx kreq s = ((None, Some e), s)) \<and>
   (md ctx = None \<or> (\<exists>m. md ctx = Some m \<and> md_get m ''authorization'' = []) \<longrightarrow>
      checkFromHub x s ctx = Inl ErrBadAuthentication \<and>
      checkMgmtAllowed x s ctx = Inl ErrBadAuthentication) \<and>
   (md ctx = Some m \<and> md_get m ''authorization'' = tok # rest \<longrightarrow>
      (CheckTokenED25519 x tok (pubKey s) = Inl e' \<longrightarrow>
         checkFromHub x s ctx = Inl e' \<and> checkMgmtAllowed x s ctx = Inl e') \<and>
      (CheckTokenED25519 x tok (pubKey s) = Inr t \<and> Role (Body t) \<noteq> HUB \<longrightarrow>
         checkFromHub x s ctx = Inl (Wrapf ErrBadAuthentication ''role was: %s'' [Role (Body t)]) \<and>
         Cause (Wrapf ErrBadAuthentication ''role was: %s'' [Role (Body t)]) = ErrBadAuthentication) \<and>
      (CheckTokenED25519 x tok (pubKey s) = Inr t \<and> Role (Body t) \<noteq> MANAGE \<longrightarrow>
         checkMgmtAllowed x s ctx = Inl ErrBadAuthentication))"
proof (intro conjI impI)
  assume "md ctx = None \<or> (\<exists>m. md ctx = Some m \<and> md_get m ''authorization'' = [])"
  then show "checkFromHub x s ctx = Inl ErrBadAuthentication"
    using gates_no_metadata(1) gates_no_authorization(1) by blast
next
  assume "md ctx = None \<or> (\<exists>m. md ctx = Some m \<and> md_get m ''authorization'' = [])"
  then show "checkMgmtAllowed x s ctx = Inl ErrBadAuthentication"
    using gates_no_metadata(2) gates_no_authorization(2) by blast
qed (simp_all add: hub_gate_rejects mgmt_gate_rejects gates_verifier_error gates_wrong_role)

theorem auth_gating_witness:
  "RemoveService demo_ext no_metadata remove_X demo_server
     = ((None, Some ErrBadAuthentication), demo_server) \<and>
   CreateToken demo_ext no_metadata create_sub demo_server
     = ((None, Some ErrBadAuthentication), demo_server) \<and>
   FetchConfig demo_ext (bearer ''M:org'') fetch_I2 9 demo_server
     = ((None, Some (Wrapf ErrBadAuthentication ''role was: %s'' [MANAGE])), demo_server) \<and>
   AddLabelLink demo_ext (bearer ''H:'') link_foo demo_server
     = ((None, Some ErrBadAuthentication), demo_server) \<and>
   HubDisconnect demo_ext (bearer ''forged'') disconnect_S demo_server
     = ((None, Some (External ''bad token'')), demo_server)"
proof -
  have a: "checkFromHub demo_ext demo_server no_metadata = Inl ErrBadAuthentication"
    by (simp add: checkFromHub_def no_metadata_def)
  have b: "checkMgmtAllowed demo_ext demo_server no_metadata = Inl ErrBadAuthentication"
    by (simp add: checkMgmtAllowed_def no_metadata_def)
  have c: "checkFromHub demo_ext demo_server (bearer ''M:org'')
             = Inl (Wrapf ErrBadAuthentication ''role was: %s'' [MANAGE])"
    by (simp add: checkFromHub_def demo_defs)
  have d: "checkMgmtAllowed demo_ext demo_server (bearer ''H:'') = Inl ErrBadAuthentication"
    by (simp add: checkMgmtAllowed_def demo_defs)
  have e: "checkFromHub demo_ext demo_server (bearer ''forged'') = Inl (External ''bad token'')"
    by (simp add: checkFromHub_def demo_defs)
  note g = auth_gating [THEN conjunct1, rule_format]
  note m = auth_gating [THEN conjunct2, THEN conjunct1, rule_format]
  show ?thesis
    using g [OF a, of remove_X] m [OF b, of _ _ create_sub] g [OF c, of _ fetch_I2 9]
      m [OF d, of link_foo] g [OF e, of _ _ _ disconnect_S]
    by simp
qed

text \<open>
  Claim C1 as stated fails for two handlers. \<open>AllHubs\<close> and \<open>SyncHub\<close> make no
  check: without any metadata the first lists the
  hubs and the second returns neither a reply nor an error.
\<close>

theorem AllHubs_SyncHub_unauthenticated:
  "AllHubs demo_ext no_metadata demo_server
     = ((Some [\<lparr>hi_Id = instance_I1, hi_Locations = []\<rparr>], None), demo_server) \<and>
   SyncHub no_metadata () demo_server = ((None, None), demo_server)"
  by (simp add: AllHubs_def SyncHub_def find_hubs_def db_Check_def demo_defs)

subsection \<open>Register\<close>

lemma sql_like_percent: "sql_like [CHR ''%''] t"
  by (induction t) simp_all

lemma sql_like_plain_prefix:
  assumes "CHR ''%'' \<notin> set n" and "CHR ''_'' \<notin> set n" and "CHR 0x5C \<notin> set n"
  shows "sql_like (n @ ''%'') t = HasPrefix t n"
  using assms
proof (induction n arbitrary: t)
  case Nil
  then show ?case using sql_like_percent by simp
next
  case (Cons c cs)
  then show ?case by (cases t) auto
qed

lemma find_None_no_list_ex: "(find P xs = None) = (\<not> list_ex P xs)"
  by (auto simp: find_None_iff list_ex_iff)

lemma Register_in_use:
  assumes "md ctx = Some m" and "md_get m ''authorization'' = tok # rest"
    and "tok = registerToken s" and "faults s = []"
    and "list_ex (\<lambda>c. sql_like (reg_Namespace reg @ ''%'') (mc_Namespace c)) (management_clients (tbl s))"
  shows "Register x ctx reg newULID s = ((None, Some (Errorf ''namespace already in use'')), s)"
proof -
  from assms(5) obtain r where
    "find (\<lambda>c. sql_like (reg_Namespace reg @ ''%'') (mc_Namespace c)) (management_clients (tbl s)) = Some r"
    by (cases "find (\<lambda>c. sql_like (reg_Namespace reg @ ''%'') (mc_Namespace c)) (management_clients (tbl s))")
       (simp_all add: find_None_no_list_ex)
  then show ?thesis
    using assms(1-4)
    by (simp add: Register_def Register_body_def first_management_client_like_def db_Check_def)
qed

lemma Register_creates:
  assumes "md ctx = Some m" and "md_get m ''authorization'' = tok # rest"
    and "tok = registerToken s" and "faults s = []"
    and "\<not> list_ex (\<lambda>c. sql_like (reg_Namespace reg @ ''%'') (mc_Namespace c)) (management_clients (tbl s))"
    and "\<not> list_ex (\<lambda>c. mc_ID c = newULID) (management_clients (tbl s))"
    and "EncodeED25519WithVault x
           ((TokenCreator_zero x)\<lparr>tc_Role := MANAGE, tc_Capabilities := [(ACCESS, reg_Namespace reg)]\<rparr>)
         = Inr token"
  shows "Register x ctx reg newULID s =
           ((Some token, None),
            s\<lparr>tbl := (tbl s)\<lparr>management_clients := management_clients (tbl s) @
                 [\<lparr>mc_ID = newULID, mc_Namespace = reg_Namespace reg\<rparr>]\<rparr>\<rparr>)"
proof -
  from assms(5) have
    "find (\<lambda>c. sql_like (reg_Namespace reg @ ''%'') (mc_Namespace c)) (management_clients (tbl s)) = None"
    by (simp add: find_None_no_list_ex)
  then show ?thesis
    using assms(1-4,6,7)
    by (simp add: Register_def Register_body_def first_management_client_like_def db_Check_def
          create_management_client_def)
qed

text \<open>
  Claim C5, as amended. For a request that bears the shared register token, on a store
  that executes every statement, and a namespace \<open>N\<close> without pattern characters:
  \<open>Register\<close> fails with ``namespace already in use'' whenever \<open>N\<close> is a prefix of
  the namespace of some existing management client; otherwise (given an unused
  identifier and a signer that succeeds) it creates a record with namespace \<open>N\<close> and
  returns the signed token.
\<close>

theorem Register_namespace_check:
  assumes "md ctx = Some m" and "md_get m ''authorization'' = tok # rest"
    and "tok = registerToken s" and "faults s = []"
    and "CHR ''%'' \<notin> set (reg_Namespace reg)" and "CHR ''_'' \<notin> set (reg_Namespace reg)"
    and "CHR 0x5C \<notin> set (reg_Namespace reg)"
  shows
   "(list_ex (\<lambda>c. HasPrefix (mc_Namespace c) (reg_Namespace reg)) (management_clients (tbl s)) \<longrightarrow>
       Register x ctx reg newULID s = ((None, Some (Errorf ''namespace already in use'')), s)) \<and>
    (\<not> list_ex (\<lambda>c. HasPrefix (mc_Namespace c) (reg_Namespace reg)) (management_clients (tbl s)) \<and>
     \<not> list_ex (\<lambda>c. mc_ID c = newULID) (management_clients (tbl s)) \<and>
     EncodeED25519WithVault x
       ((TokenCreator_zero x)\<lparr>tc_Role := MANAGE, tc_Capabilities := [(ACCESS, reg_Namespace reg)]\<rparr>)
       = Inr token \<longrightarrow>
       Register x ctx reg newULID s =
         ((Some token, None),
          s\<lparr>tbl := (tbl s)\<lparr>management_clients := management_clients (tbl s) @
               [\<lparr>mc_ID = newULID, mc_Namespace = reg_Namespace reg\<rparr>]\<rparr>\<rparr>))"
proof -
  have like: "(\<lambda>c. sql_like (reg_Namespace reg @ ''%'') (mc_Namespace c))
                = (\<lambda>c. HasPrefix (mc_Namespace c) (reg_Namespace reg))"
    using sql_like_plain_prefix [OF assms(5,6,7)] by simp
  show ?thesis
    using Register_in_use [OF assms(1-4), of reg x newULID]
      Register_creates [OF assms(1-4), of reg newULID x token]
    unfolding like by blast
qed

theorem Register_namespace_check_witness:
  "Register demo_ext (bearer ''register-secret'') \<lparr>reg_Namespace = ''o''\<rparr> instance_I2 demo_server
     = ((None, Some (Errorf ''namespace already in use'')), demo_server) \<and>
   Register demo_ext (bearer ''register-secret'') \<lparr>reg_Namespace = ''acme''\<rparr> instance_I2 demo_server
     = ((Some ''M:'', None),
        demo_server\<lparr>tbl := (tbl demo_server)\<lparr>management_clients :=
          management_clients (tbl demo_server) @ [\<lparr>mc_ID = instance_I2, mc_Namespace = ''acme''\<rparr>]\<rparr>\<rparr>)"
proof -
  have a: "md (bearer ''register-secret'') = Some [''authorization'' \<mapsto> [''register-secret'']]"
    by (simp add: bearer_def)
  have b: "md_get [''authorization'' \<mapsto> [''register-secret'']] ''authorization'' = ''register-secret'' # []"
    by (simp add: md_get_def)
  have c: "''register-secret'' = registerToken demo_server"
    by (simp add: demo_server_def)
  have d: "faults demo_server = []"
    by (simp add: demo_server_def)
  have e: "CHR ''%'' \<notin> set (reg_Namespace \<lparr>reg_Namespace = ''o''\<rparr>)"
          "CHR ''_'' \<notin> set (reg_Namespace \<lparr>reg_Namespace = ''o''\<rparr>)"
          "CHR 0x5C \<notin> set (reg_Namespace \<lparr>reg_Namespace = ''o''\<rparr>)"
    by simp_all
  have f: "list_ex (\<lambda>c. HasPrefix (mc_Namespace c) (reg_Namespace \<lparr>reg_Namespace = ''o''\<rparr>))
             (management_clients (tbl demo_server))"
    by (simp add: demo_server_def demo_tables_def client_row_org_def)
  have e': "CHR ''%'' \<notin> set (reg_Namespace \<lparr>reg_Namespace = ''acme''\<rparr>)"
          "CHR ''_'' \<notin> set (reg_Namespace \<lparr>reg_Namespace = ''acme''\<rparr>)"
          "CHR 0x5C \<notin> set (reg_Namespace \<lparr>reg_Namespace = ''acme''\<rparr>)"
    by simp_all
  have g: "\<not> list_ex (\<lambda>c. HasPrefix (mc_Namespace c) (reg_Namespace \<lparr>reg_Namespace = ''acme''\<rparr>))
               (management_clients (tbl demo_server)) \<and>
           \<not> list_ex (\<lambda>c. mc_ID c = instance_I2) (management_clients (tbl demo_server)) \<and>
           EncodeED25519WithVault demo_ext
             ((TokenCreator_zero demo_ext)\<lparr>tc_Role := MANAGE,
                tc_Capabilities := [(ACCESS, reg_Namespace \<lparr>reg_Namespace = ''acme''\<rparr>)]\<rparr>)
             = Inr ''M:''"
    by (simp add: TokenCreator_zero_def demo_defs)
  from Register_namespace_check [OF a b c d e, THEN conjunct1, rule_format, OF f]
    Register_namespace_check [OF a b c d e', THEN conjunct2, rule_format, OF g]
  show ?thesis by simp
qed

text \<open>
  Claim C5 as stated fails. The check runs from the requested namespace to the stored
  ones, not the other way
  round: with the client \<open>org\<close> registered, whose namespace is a prefix of
  \<open>org/team\<close>, the registration of \<open>org/team\<close> succeeds.
\<close>

theorem Register_accepts_extension_of_existing:
  "management_clients (tbl demo_server) = [client_row_org] \<and>
   HasPrefix (reg_Namespace register_team) (mc_Namespace client_row_org) \<and>
   Register demo_ext (bearer ''register-secret'') register_team instance_I2 demo_server
     = ((Some ''M:'', None),
        demo_server\<lparr>tbl := demo_tables\<lparr>management_clients :=
          [client_row_org, \<lparr>mc_ID = instance_I2, mc_Namespace = ''org/team''\<rparr>]\<rparr>\<rparr>)"
  by (simp add: Register_def Register_body_def first_management_client_like_def db_Check_def
        create_management_client_def TokenCreator_zero_def register_team_def demo_defs)


subsection \<open>CreateToken\<close>

lemma check_access_capabilities_None:
  "(check_access_capabilities caller cbs = None) =
     (\<forall>cb \<in> set cbs. tcap_Capability cb = ACCESS \<longrightarrow> AllowAccount caller (tcap_Value cb))"
  by (induction cbs) auto

lemma check_access_capabilities_Some:
  "check_access_capabilities caller cbs = Some e \<Longrightarrow>
     e = Wrapf ErrInvalidRequest ''invalid namespace requested in access capability'' []"
  by (induction cbs) (auto split: if_splits)

lemma CreateToken_mints_ok:
  assumes "checkMgmtAllowed x s ctx = Inr caller" and "faults s = []"
    and "AllowAccount caller (Namespace (ct_Account req))"
    and "\<forall>cb \<in> set (ct_Capabilities req). tcap_Capability cb = ACCESS \<longrightarrow> AllowAccount caller (tcap_Value cb)"
    and "EncodeED25519WithVault x (CreateToken_creator x req) = Inr token"
  shows "fst (CreateToken x ctx req s) = (Some token, None)"
proof -
  have "check_access_capabilities caller (ct_Capabilities req) = None"
    using assms(4) by (simp add: check_access_capabilities_None)
  then show ?thesis
    using assms(1,2,3,5)
    by (simp add: CreateToken_def upsert_account_def db_Check_def CreateToken_mint_def Let_def)
qed

lemma CreateToken_refuses:
  assumes "checkMgmtAllowed x s ctx = Inr caller"
    and "\<exists>cb \<in> set (ct_Capabilities req). tcap_Capability cb = ACCESS \<and> \<not> AllowAccount caller (tcap_Value cb)"
  shows "\<exists>e. CreateToken x ctx req s = ((None, Some e), s) \<and> Cause e = ErrInvalidRequest"
proof (cases "AllowAccount caller (Namespace (ct_Account req))")
  case False
  then show ?thesis using assms(1) by (simp add: CreateToken_def)
next
  case True
  have "check_access_capabilities caller (ct_Capabilities req) \<noteq> None"
    using assms(2) by (simp add: check_access_capabilities_None)
  then obtain e where e: "check_access_capabilities caller (ct_Capabilities req) = Some e"
    by blast
  from check_access_capabilities_Some [OF e] e True assms(1)
  show ?thesis by (simp add: CreateToken_def)
qed

text \<open>
  Claim C6, as amended. For a call made with a MANAGE token that allows the requested
  account namespace and every requested ACCESS value (store executing every statement),
  the token returned is the one the signer makes for a creator that carries the
  requested account id, namespace, capability list and duration and whose role was never
  assigned: it holds the zero value of the role type. If some requested ACCESS value is
  not allowed by the caller's token, the call fails with an error whose cause is
  \<open>ErrInvalidRequest\<close> and changes nothing.
\<close>

theorem CreateToken_mints:
  assumes "checkMgmtAllowed x s ctx = Inr caller"
  shows
   "(faults s = [] \<and> AllowAccount caller (Namespace (ct_Account req)) \<and>
     (\<forall>cb \<in> set (ct_Capabilities req).
        tcap_Capability cb = ACCESS \<longrightarrow> AllowAccount caller (tcap_Value cb)) \<and>
     EncodeED25519WithVault x
       \<lparr>tc_Role = TokenRole_zero x, tc_AccountId = AccountId (ct_Account req),
        tc_AccuntNamespace = Namespace (ct_Account req), tc_Capabilities = [],
        tc_RawCapabilities = ct_Capabilities req,
        tc_ValidDuration = (case ct_ValidDuration req of None \<Rightarrow> 0 | Some d \<Rightarrow> d)\<rparr>
       = Inr token \<longrightarrow>
       fst (CreateToken x ctx req s) = (Some token, None)) \<and>
    ((\<exists>cb \<in> set (ct_Capabilities req).
        tcap_Capability cb = ACCESS \<and> \<not> AllowAccount caller (tcap_Value cb)) \<longrightarrow>
       (\<exists>e. CreateToken x ctx req s = ((None, Some e), s) \<and> Cause e = ErrInvalidRequest))"
  using CreateToken_mints_ok [OF assms, of req token] CreateToken_refuses [OF assms, of req]
  by (simp add: CreateToken_creator_def TokenCreator_zero_def)

lemma demo_mgmt_token:
  "checkMgmtAllowed demo_ext s (bearer (CHR ''M'' # CHR '':'' # ns)) = Inr (demo_token_body MANAGE ns)"
  by (simp add: checkMgmtAllowed_def demo_defs)

theorem CreateToken_mints_witness:
  "fst (CreateToken demo_ext (bearer ''M:org/team'') create_sub demo_server)
     = (Some ''R:org/team/sub'', None) \<and>
   (\<exists>e. CreateToken demo_ext (bearer ''M:org/team'') create_other demo_server
           = ((None, Some e), demo_server) \<and> Cause e = ErrInvalidRequest)"
proof -
  have a: "checkMgmtAllowed demo_ext demo_server (bearer ''M:org/team'')
             = Inr (demo_token_body MANAGE ''org/team'')"
    by (rule demo_mgmt_token)
  have b: "faults demo_server = [] \<and>
           AllowAccount (demo_token_body MANAGE ''org/team'') (Namespace (ct_Account create_sub)) \<and>
           (\<forall>cb \<in> set (ct_Capabilities create_sub).
              tcap_Capability cb = ACCESS \<longrightarrow>
              AllowAccount (demo_token_body MANAGE ''org/team'') (tcap_Value cb)) \<and>
           EncodeED25519WithVault demo_ext
             \<lparr>tc_Role = TokenRole_zero demo_ext, tc_AccountId = AccountId (ct_Account create_sub),
              tc_AccuntNamespace = Namespace (ct_Account create_sub), tc_Capabilities = [],
              tc_RawCapabilities = ct_Capabilities create_sub,
              tc_ValidDuration = (case ct_ValidDuration create_sub of None \<Rightarrow> 0 | Some d \<Rightarrow> d)\<rparr>
             = Inr ''R:org/team/sub''"
    by (simp add: AllowAccount_def create_sub_def CreateToken_creator_def TokenCreator_zero_def
          demo_defs)
  have c: "\<exists>cb \<in> set (ct_Capabilities create_other).
             tcap_Capability cb = ACCESS \<and>
             \<not> AllowAccount (demo_token_body MANAGE ''org/team'') (tcap_Value cb)"
    by (simp add: AllowAccount_def create_other_def demo_defs)
  note th = CreateToken_mints [OF a]
  from th [of create_sub "''R:org/team/sub''", THEN conjunct1, rule_format, OF b]
    th [of create_other, THEN conjunct2, rule_format, OF c]
  show ?thesis by simp
qed

text \<open>
  Claim C6 as stated fails on the role. On the instance, where the zero value of the
  role is not \<open>MANAGE\<close>, the token that
  \<open>CreateToken\<close> returns for the namespace \<open>org/team/sub\<close> verifies to a body whose
  role is not \<open>MANAGE\<close>.
\<close>

theorem CreateToken_role_not_MANAGE:
  "fst (CreateToken demo_ext (bearer ''M:org/team'') create_sub demo_server)
     = (Some ''R:org/team/sub'', None) \<and>
   CheckTokenED25519 demo_ext ''R:org/team/sub'' (pubKey demo_server)
     = Inr (demo_token_body (ROLE 0) ''org/team/sub'') \<and>
   Role (Body (demo_token_body (ROLE 0) ''org/team/sub'')) \<noteq> MANAGE"
  by (simp add: CreateToken_def checkMgmtAllowed_def AllowAccount_def upsert_account_def
        db_Check_def CreateToken_mint_def CreateToken_creator_def TokenCreator_zero_def
        create_sub_def demo_defs)

subsection \<open>AddService\<close>






subsection \<open>Label links\<close>

lemma HasPrefix_refl: "HasPrefix s s"
  by (induction s) simp_all

lemma AddLabelLink_store_tables:
  assumes "faults s = []"
    and "\<not> list_ex (\<lambda>l. ll_AccountID l = Key x (al_Account req) \<and>
                         ll_Labels l = FlattenLabels x (al_Labels req)) (label_links (tbl s))"
  shows "tbl (snd (AddLabelLink_store x ctx req s)) =
           (tbl s)\<lparr>accounts :=
                      upsert_rows \<lparr>acct_ID = Key x (al_Account req),
                                   acct_Namespace = Namespace (al_Account req)\<rparr> (accounts (tbl s)),
                    label_links := label_links (tbl s) @
                      [\<lparr>ll_ID = label_links_seq (tbl s) + 1, ll_AccountID = Key x (al_Account req),
                        ll_Labels = FlattenLabels x (al_Labels req),
                        ll_Target = FlattenLabels x (al_Target req)\<rparr>],
                    label_links_seq := label_links_seq (tbl s) + 1\<rparr>"
  using assms
  by (simp add: AddLabelLink_store_def upsert_account_def create_label_link_def db_Check_def
        broadcastActivity_def LabelLink_zero_def Let_def split: option.splits)

lemma AddLabelLink_store_hubs:
  assumes "faults s = []"
    and "\<not> list_ex (\<lambda>l. ll_AccountID l = Key x (al_Account req) \<and>
                         ll_Labels l = FlattenLabels x (al_Labels req)) (label_links (tbl s))"
    and "\<not> ctx_done ctx"
  shows "connectedHubs (snd (AddLabelLink_store x ctx req s)) =
           map (\<lambda>(k, hub). (k, hub\<lparr>xmit := xmit hub @ [label_link_activity req]\<rparr>)) (connectedHubs s)"
  using assms
  by (simp add: AddLabelLink_store_def upsert_account_def create_label_link_def db_Check_def
        broadcastActivity_def LabelLink_zero_def Let_def split: option.splits)

lemma AddLabelLink_store_reply:
  assumes "faults s = []"
    and "\<not> list_ex (\<lambda>l. ll_AccountID l = Key x (al_Account req) \<and>
                         ll_Labels l = FlattenLabels x (al_Labels req)) (label_links (tbl s))"
    and "updateLabelLinks x (tbl (snd (AddLabelLink_store x ctx req s))) = None"
  shows "fst (AddLabelLink_store x ctx req s) = (Some Noop, None)"
proof -
  from assms(3) have
    "updateLabelLinks x
       ((tbl s)\<lparr>accounts :=
                  upsert_rows \<lparr>acct_ID = Key x (al_Account req),
                               acct_Namespace = Namespace (al_Account req)\<rparr> (accounts (tbl s)),
                label_links := label_links (tbl s) @
                  [\<lparr>ll_ID = label_links_seq (tbl s) + 1, ll_AccountID = Key x (al_Account req),
                    ll_Labels = FlattenLabels x (al_Labels req),
                    ll_Target = FlattenLabels x (al_Target req)\<rparr>],
                label_links_seq := label_links_seq (tbl s) + 1\<rparr>) = None"
    unfolding AddLabelLink_store_tables [OF assms(1,2)] .
  then show ?thesis
    using assms(1,2)
    by (cases "ctx_done ctx \<and> connectedHubs s \<noteq> []")
       (simp_all add: AddLabelLink_store_def upsert_account_def create_label_link_def
          db_Check_def broadcastActivity_def LabelLink_zero_def Let_def)
qed

lemma AddLabelLink_allowed:
  assumes "checkMgmtAllowed x s ctx = Inr caller"
    and "AllowAccount caller (Namespace (al_Account (default_namespace caller req)))"
  shows "AddLabelLink x ctx req s = AddLabelLink_store x ctx (default_namespace caller req) s"
  using assms by (simp add: AddLabelLink_def Let_def)

lemma RemoveLabelLink_effect:
  assumes "checkMgmtAllowed x s ctx = Inr caller" and "faults s = []"
    and "AllowAccount caller (Namespace (rl_Account req))"
  shows "snd (RemoveLabelLink x ctx req s) =
           s\<lparr>tbl := (tbl s)\<lparr>label_links :=
                filter (\<lambda>l. \<not> (ll_AccountID l = Key x (rl_Account req) \<and>
                                 ll_Labels l = FlattenLabels x (rl_Labels req)))
                  (label_links (tbl s))\<rparr>\<rparr>"
    and "updateLabelLinks x (tbl (snd (RemoveLabelLink x ctx req s))) = None \<Longrightarrow>
         fst (RemoveLabelLink x ctx req s) = (Some Noop, None)"
  using assms
  by (simp_all add: RemoveLabelLink_def delete_label_links_def db_Check_def LabelLink_zero_def
        Let_def split: option.splits)

text \<open>
  Claim C7, as amended. Called with a MANAGE token that allows the request's namespace,
  on a store that executes every statement: \<open>AddLabelLink\<close> (the pair of account key
  and flattened labels being new, the context live) upserts the account row, appends the
  link row keyed by the flattened labels and hands the delta to every connected session;
  \<open>RemoveLabelLink\<close> deletes the link rows with the account key and the flattened
  labels and changes nothing else: it upserts no account and publishes no delta. Either
  handler replies without error when the label links are re-materialised without error.
\<close>

theorem label_link_effects:
  assumes "checkMgmtAllowed x s ctx = Inr caller" and "faults s = []"
  shows
   "(AllowAccount caller (Namespace (al_Account (default_namespace caller areq))) \<and>
     \<not> list_ex (\<lambda>l. ll_AccountID l = Key x (al_Account (default_namespace caller areq)) \<and>
                     ll_Labels l = FlattenLabels x (al_Labels areq)) (label_links (tbl s)) \<and>
     \<not> ctx_done ctx \<longrightarrow>
       tbl (snd (AddLabelLink x ctx areq s)) =
         (tbl s)\<lparr>accounts :=
                    upsert_rows \<lparr>acct_ID = Key x (al_Account (default_namespace caller areq)),
                                 acct_Namespace = Namespace (al_Account (default_namespace caller areq))\<rparr>
                      (accounts (tbl s)),
                  label_links := label_links (tbl s) @
                    [\<lparr>ll_ID = label_links_seq (tbl s) + 1,
                      ll_AccountID = Key x (al_Account (default_namespace caller areq)),
                      ll_Labels = FlattenLabels x (al_Labels areq),
                      ll_Target = FlattenLabels x (al_Target areq)\<rparr>],
                  label_links_seq := label_links_seq (tbl s) + 1\<rparr> \<and>
       connectedHubs (snd (AddLabelLink x ctx areq s)) =
         map (\<lambda>(k, hub). (k, hub\<lparr>xmit := xmit hub @
                [label_link_activity (default_namespace caller areq)]\<rparr>)) (connectedHubs s) \<and>
       (updateLabelLinks x (tbl (snd (AddLabelLink x ctx areq s))) = None \<longrightarrow>
          fst (AddLabelLink x ctx areq s) = (Some Noop, None))) \<and>
    (AllowAccount caller (Namespace (rl_Account rreq)) \<longrightarrow>
       snd (RemoveLabelLink x ctx rreq s) =
         s\<lparr>tbl := (tbl s)\<lparr>label_links :=
              filter (\<lambda>l. \<not> (ll_AccountID l = Key x (rl_Account rreq) \<and>
                               ll_Labels l = FlattenLabels x (rl_Labels rreq)))
                (label_links (tbl s))\<rparr>\<rparr> \<and>
       (updateLabelLinks x (tbl (snd (RemoveLabelLink x ctx rreq s))) = None \<longrightarrow>
          fst (RemoveLabelLink x ctx rreq s) = (Some Noop, None)))"
proof -
  have labels: "al_Labels (default_namespace caller areq) = al_Labels areq"
    and target: "al_Target (default_namespace caller areq) = al_Target areq"
    by (simp_all add: default_namespace_def)
  show ?thesis
    using AddLabelLink_allowed [OF assms(1), of areq]
      AddLabelLink_store_tables [OF assms(2), of x "default_namespace caller areq" ctx]
      AddLabelLink_store_hubs [OF assms(2), of x "default_namespace caller areq" ctx]
      AddLabelLink_store_reply [OF assms(2), of x "default_namespace caller areq" ctx]
      RemoveLabelLink_effect [OF assms, of rreq]
    by (simp add: labels target)
qed


theorem label_link_effects_witness:
  "tbl (snd (AddLabelLink demo_ext (bearer ''M:org'') link_foo demo_server)) =
     demo_tables\<lparr>accounts := [\<lparr>acct_ID = AccountId account_A, acct_Namespace = ''org/team''\<rparr>],
                 label_links := [link_row_foo], label_links_seq := 1\<rparr> \<and>
   connectedHubs (snd (AddLabelLink demo_ext (bearer ''M:org'') link_foo demo_server)) =
     [(''h1'', connectedHub_new\<lparr>xmit := [label_link_activity link_foo]\<rparr>),
      (''h2'', connectedHub_new\<lparr>xmit := [label_link_activity link_foo]\<rparr>)] \<and>
   fst (AddLabelLink demo_ext (bearer ''M:org'') link_foo demo_server) = (Some Noop, None) \<and>
   snd (RemoveLabelLink demo_ext (bearer ''M:org'') unlink_foo linked_server) =
     linked_server\<lparr>tbl := (tbl linked_server)\<lparr>label_links := []\<rparr>\<rparr>"
proof -
  have a: "checkMgmtAllowed demo_ext demo_server (bearer ''M:org'') = Inr (demo_token_body MANAGE ''org'')"
    by (rule demo_mgmt_token)
  have a': "checkMgmtAllowed demo_ext linked_server (bearer ''M:org'') = Inr (demo_token_body MANAGE ''org'')"
    by (rule demo_mgmt_token)
  have b: "faults demo_server = []" and b': "faults linked_server = []"
    by (simp_all add: demo_server_def linked_server_def)
  have dn: "default_namespace (demo_token_body MANAGE ''org'') link_foo = link_foo"
    by (simp add: default_namespace_def link_foo_def account_A_def)
  have c: "AllowAccount (demo_token_body MANAGE ''org'')
             (Namespace (al_Account (default_namespace (demo_token_body MANAGE ''org'') link_foo))) \<and>
           \<not> list_ex (\<lambda>l. ll_AccountID l =
                            Key demo_ext (al_Account (default_namespace (demo_token_body MANAGE ''org'') link_foo)) \<and>
                          ll_Labels l = FlattenLabels demo_ext (al_Labels link_foo))
                (label_links (tbl demo_server)) \<and>
           \<not> ctx_done (bearer ''M:org'')"
    by (simp add: default_namespace_def AllowAccount_def link_foo_def demo_defs)
  have d: "AllowAccount (demo_token_body MANAGE ''org'') (Namespace (rl_Account unlink_foo))"
    by (simp add: AllowAccount_def unlink_foo_def demo_defs)
  note add = label_link_effects [OF a b, of link_foo, THEN conjunct1, rule_format, OF c]
  note del = label_link_effects [OF a' b', of _ unlink_foo, THEN conjunct2, rule_format, OF d]
  have t: "tbl (snd (AddLabelLink demo_ext (bearer ''M:org'') link_foo demo_server)) =
     demo_tables\<lparr>accounts := [\<lparr>acct_ID = AccountId account_A, acct_Namespace = ''org/team''\<rparr>],
                 label_links := [link_row_foo], label_links_seq := 1\<rparr>"
    using add [THEN conjunct1]
    by (simp add: default_namespace_def upsert_rows_def link_foo_def link_row_foo_def demo_defs)
  have h: "connectedHubs (snd (AddLabelLink demo_ext (bearer ''M:org'') link_foo demo_server)) =
     [(''h1'', connectedHub_new\<lparr>xmit := [label_link_activity link_foo]\<rparr>),
      (''h2'', connectedHub_new\<lparr>xmit := [label_link_activity link_foo]\<rparr>)]"
    using add [THEN conjunct2, THEN conjunct1]
    unfolding dn by (simp add: demo_server_def connectedHub_new_def)
  have u: "updateLabelLinks demo_ext
             (tbl (snd (AddLabelLink demo_ext (bearer ''M:org'') link_foo demo_server))) = None"
    by (simp add: demo_ext_def)
  have r: "fst (AddLabelLink demo_ext (bearer ''M:org'') link_foo demo_server) = (Some Noop, None)"
    using add [THEN conjunct2, THEN conjunct2, rule_format, OF u] .
  have k: "snd (RemoveLabelLink demo_ext (bearer ''M:org'') unlink_foo linked_server) =
     linked_server\<lparr>tbl := (tbl linked_server)\<lparr>label_links := []\<rparr>\<rparr>"
    using del [THEN conjunct1]
    by (simp add: linked_server_def link_row_foo_def unlink_foo_def demo_defs)
  from t h r k show ?thesis by blast
qed

text \<open>
  Claim C7 as stated fails for the removal. On a server with two connected sessions,
  one link and no account row, a successful
  \<open>RemoveLabelLink\<close> deletes the link, leaves the accounts empty and hands nothing to
  the sessions.
\<close>

theorem RemoveLabelLink_no_upsert_no_broadcast:
  "fst (RemoveLabelLink demo_ext (bearer ''M:org'') unlink_foo linked_server) = (Some Noop, None) \<and>
   label_links (tbl linked_server) = [link_row_foo] \<and>
   label_links (tbl (snd (RemoveLabelLink demo_ext (bearer ''M:org'') unlink_foo linked_server))) = [] \<and>
   accounts (tbl (snd (RemoveLabelLink demo_ext (bearer ''M:org'') unlink_foo linked_server))) = [] \<and>
   map (\<lambda>(k, hub). (k, xmit hub))
     (connectedHubs (snd (RemoveLabelLink demo_ext (bearer ''M:org'') unlink_foo linked_server)))
     = [(''h1'', []), (''h2'', [])]"
  by (simp add: RemoveLabelLink_def checkMgmtAllowed_def AllowAccount_def delete_label_links_def
        db_Check_def LabelLink_zero_def linked_server_def link_row_foo_def unlink_foo_def
        demo_defs Let_def)

text \<open>
  Claim C10. When the request's account namespace is empty, the namespace of the caller's
  token is substituted before the check of the namespace, so that the check passes and
  the handler goes on to the store with the substituted request; on a store that
  executes every statement (the pair of account key and flattened labels being new) the
  account row is upserted with the caller's namespace and the link row is recorded under
  the key of that account.
\<close>

theorem AddLabelLink_empty_namespace:
  assumes "checkMgmtAllowed x s ctx = Inr caller" and "Namespace (al_Account req) = []"
  shows
   "AllowAccount caller (Namespace (al_Account (default_namespace caller req))) \<and>
    AddLabelLink x ctx req s =
      AddLabelLink_store x ctx
        (req\<lparr>al_Account := (al_Account req)\<lparr>Namespace := body_Namespace (Body caller)\<rparr>\<rparr>) s \<and>
    (faults s = [] \<and>
     \<not> list_ex (\<lambda>l. ll_AccountID l =
                      Key x ((al_Account req)\<lparr>Namespace := body_Namespace (Body caller)\<rparr>) \<and>
                    ll_Labels l = FlattenLabels x (al_Labels req)) (label_links (tbl s)) \<longrightarrow>
       accounts (tbl (snd (AddLabelLink x ctx req s))) =
         upsert_rows
           \<lparr>acct_ID = Key x ((al_Account req)\<lparr>Namespace := body_Namespace (Body caller)\<rparr>),
            acct_Namespace = body_Namespace (Body caller)\<rparr> (accounts (tbl s)) \<and>
       label_links (tbl (snd (AddLabelLink x ctx req s))) =
         label_links (tbl s) @
           [\<lparr>ll_ID = label_links_seq (tbl s) + 1,
             ll_AccountID = Key x ((al_Account req)\<lparr>Namespace := body_Namespace (Body caller)\<rparr>),
             ll_Labels = FlattenLabels x (al_Labels req),
             ll_Target = FlattenLabels x (al_Target req)\<rparr>])"
proof -
  let ?req = "req\<lparr>al_Account := (al_Account req)\<lparr>Namespace := body_Namespace (Body caller)\<rparr>\<rparr>"
  have dn: "default_namespace caller req = ?req"
    using assms(2) by (simp add: default_namespace_def token_Account_def)
  have allow: "AllowAccount caller (Namespace (al_Account (default_namespace caller req)))"
    by (simp add: dn AllowAccount_def HasPrefix_refl)
  have run: "AddLabelLink x ctx req s = AddLabelLink_store x ctx ?req s"
    using AddLabelLink_allowed [OF assms(1) allow] by (simp add: dn)
  show ?thesis
    using allow run AddLabelLink_store_tables [of s x ?req ctx]
    by simp
qed

theorem AddLabelLink_empty_namespace_witness:
  "AddLabelLink demo_ext (bearer ''M:org/team'') link_anon demo_server =
     AddLabelLink_store demo_ext (bearer ''M:org/team'')
       (link_anon\<lparr>al_Account := (al_Account link_anon)\<lparr>Namespace := ''org/team''\<rparr>\<rparr>) demo_server \<and>
   accounts (tbl (snd (AddLabelLink demo_ext (bearer ''M:org/team'') link_anon demo_server))) =
     [\<lparr>acct_ID = AccountId account_A, acct_Namespace = ''org/team''\<rparr>] \<and>
   label_links (tbl (snd (AddLabelLink demo_ext (bearer ''M:org/team'') link_anon demo_server))) =
     [link_row_foo]"
proof -
  have a: "checkMgmtAllowed demo_ext demo_server (bearer ''M:org/team'')
             = Inr (demo_token_body MANAGE ''org/team'')"
    by (rule demo_mgmt_token)
  have b: "Namespace (al_Account link_anon) = []"
    by (simp add: link_anon_def)
  have c: "faults demo_server = [] \<and>
     \<not> list_ex (\<lambda>l. ll_AccountID l =
                      Key demo_ext ((al_Account link_anon)\<lparr>Namespace :=
                         body_Namespace (Body (demo_token_body MANAGE ''org/team''))\<rparr>) \<and>
                    ll_Labels l = FlattenLabels demo_ext (al_Labels link_anon))
          (label_links (tbl demo_server))"
    by (simp add: demo_defs)
  note th = AddLabelLink_empty_namespace [OF a b]
  from th [THEN conjunct2, THEN conjunct1]
    th [THEN conjunct2, THEN conjunct2, rule_format, OF c]
  show ?thesis
    by (simp add: upsert_rows_def link_anon_def link_row_foo_def demo_defs)
qed

end
